theory Spec2Isabelle
  imports
    Complex_Main
    "HOL-Library.Multiset"
    "HOL-Library.Char_ord"
    "HOL-Library.List_Lexorder"
    "HOL-Library.Log_Nat"
begin

section \<open>A model of main.go of the wunderground exporter\<close>

text \<open>
  The program answers \<^verbatim>\<open>/scrape?station_id=S\<close> by one call of
  \<^verbatim>\<open>fetchWeatherData\<close> (an HTTP GET to the weather provider, a JSON decode, the
  construction of a \<^verbatim>\<open>WeatherData\<close>) followed by the construction of a fresh registry
  of gauges, their population from \<^verbatim>\<open>WeatherData.Sensors\<close> and the rendering of the
  registry.  The model follows main.go function by function.  What main.go takes from
  outside is explicit: the network, the API key, the JSON syntax scanner, the
  validation of label values and the order in which \<^verbatim>\<open>range\<close> visits a map are fields
  of the record \<open>env\<close>; a panic is the value \<open>Panic\<close> of the type \<open>outcome\<close>.
\<close>

subsection \<open>float64 and int\<close>

text \<open>
  A finite float64 is modelled by the rational number it denotes (the sign of zero is
  not kept).  \<open>round_float64\<close> rounds a rational to the nearest float64, ties to the
  even significand: 53 bits of significand above the smallest exponent \<open>-1074\<close>.
  It is the rounding of \<^verbatim>\<open>strconv.ParseFloat\<close>, which fails when the rounded value is
  beyond the largest float64, and of the conversion \<^verbatim>\<open>float64(n)\<close> of an integer.
  The Go type \<^verbatim>\<open>int\<close> is taken to be 64 bits wide.
\<close>

type_synonym float64 = rat

definition ilog2 :: "rat \<Rightarrow> int" where
  "ilog2 a =
     (let c = bitlen (fst (quotient_of a)) - bitlen (snd (quotient_of a))
      in if 2 powi c \<le> a then c else c - 1)"

definition round_half_even :: "rat \<Rightarrow> int" where
  "round_half_even x =
     (let f = \<lfloor>x\<rfloor>; d = x - of_int f
      in if d < 1 / 2 then f
         else if 1 / 2 < d then f + 1
         else if even f then f else f + 1)"

definition round_float64 :: "rat \<Rightarrow> float64" where
  "round_float64 x =
     (if x = 0 then 0
      else let ue = max (ilog2 \<bar>x\<bar> - 52) (- 1074)
           in of_int (round_half_even (x / 2 powi ue)) * 2 powi ue)"

definition ParseFloat :: "rat \<Rightarrow> float64 option" where
  "ParseFloat x =
     (let r = round_float64 x in if \<bar>r\<bar> < 2 ^ 1024 then Some r else None)"

definition float64_of_int :: "int \<Rightarrow> float64" where
  "float64_of_int n = round_float64 (of_int n)"

definition ParseInt :: "int \<Rightarrow> int option" where
  "ParseInt n = (if - (2 ^ 63) \<le> n \<and> n < 2 ^ 63 then Some n else None)"

subsection \<open>JSON documents\<close>

text \<open>
  A number literal is \<open>IntLit n\<close> when its text is an optional minus sign and digits
  (the only texts \<^verbatim>\<open>strconv.ParseInt\<close> accepts), and \<open>FracLit q\<close> when its text has a
  fraction or an exponent part and denotes \<open>q\<close>.  An object is the list of its members
  in the order of the text.
\<close>

datatype number = IntLit int | FracLit rat

datatype json =
    JNull
  | JBool bool
  | JNumber number
  | JString string
  | JArray "json list"
  | JObject "(string \<times> json) list"

fun number_value :: "number \<Rightarrow> rat" where
  "number_value (IntLit n) = of_int n"
| "number_value (FracLit q) = q"

fun json_kind :: "json \<Rightarrow> string" where
  "json_kind JNull = ''null''"
| "json_kind (JBool b) = ''bool''"
| "json_kind (JNumber n) = ''number''"
| "json_kind (JString s) = ''string''"
| "json_kind (JArray js) = ''array''"
| "json_kind (JObject ms) = ''object''"

subsection \<open>Errors and panics\<close>

text \<open>
  The values of Go's \<^verbatim>\<open>error\<close> that \<^verbatim>\<open>fetchWeatherData\<close> can return: the error of
  \<^verbatim>\<open>http.Get\<close>, the error of \<^verbatim>\<open>ioutil.ReadAll\<close>, the error made by \<^verbatim>\<open>fmt.Errorf\<close>
  (its message), and the two errors of \<^verbatim>\<open>json.Unmarshal\<close> (a syntax error; a JSON
  value, given by its kind, that does not fit the Go type of its field).
\<close>

datatype error =
    GetError string
  | ReadAllError string
  | ErrorString string
  | SyntaxError string
  | UnmarshalTypeError string string

datatype 'a outcome = Panic string | Returned 'a

subsection \<open>The decoded response: WeatherObservation\<close>

text \<open>
  The fields of the two anonymous structs carry their JSON names (the struct tags of
  main.go), the fields of \<^verbatim>\<open>WeatherData\<close> their Go names.
\<close>

record Metric =
  temp :: float64
  heatIndex :: float64
  dewpt :: float64
  windChill :: float64
  windSpeed :: float64
  windGust :: float64
  pressure :: float64
  precipRate :: float64
  precipTotal :: float64
  elev :: float64

record Observation =
  stationID :: string
  obsTimeUtc :: string
  obsTimeLocal :: string
  neighborhood :: string
  softwareType :: string
  country :: string
  solarRadiation :: float64
  lat :: float64
  lon :: float64
  realtimeFrequency :: json
  epoch :: int
  uv :: float64
  winddir :: int
  humidity :: float64
  qcStatus :: int
  metric :: Metric

record WeatherObservation =
  Observations :: "Observation list"

definition zero_Metric :: Metric where
  "zero_Metric =
     \<lparr>temp = 0, heatIndex = 0, dewpt = 0, windChill = 0, windSpeed = 0, windGust = 0,
      pressure = 0, precipRate = 0, precipTotal = 0, elev = 0\<rparr>"

definition zero_Observation :: Observation where
  "zero_Observation =
     \<lparr>stationID = [], obsTimeUtc = [], obsTimeLocal = [], neighborhood = [],
      softwareType = [], country = [], solarRadiation = 0, lat = 0, lon = 0,
      realtimeFrequency = JNull, epoch = 0, uv = 0, winddir = 0, humidity = 0,
      qcStatus = 0, metric = zero_Metric\<rparr>"

definition zero_WeatherObservation :: WeatherObservation where
  "zero_WeatherObservation = \<lparr>Observations = []\<rparr>"

subsection \<open>json.Unmarshal into WeatherObservation\<close>

text \<open>
  \<^verbatim>\<open>json.Unmarshal\<close> decodes into the value it is given: \<^verbatim>\<open>null\<close> leaves a string, a
  number or a struct as it is and empties a slice; a member whose name matches no field
  is skipped; a member met twice is decoded twice, into the same field.  A name matches
  a field when it is the field's tag, or else the first tag (in the order of the
  fields) equal to it under case folding: the case of ASCII letters is ignored, and the
  two code points beyond ASCII that fold to an ASCII letter, the long s (U+017F, in
  UTF-8 the bytes C5 BF) and the Kelvin sign (U+212A, the bytes E2 84 AA), count as
  \<open>s\<close> and \<open>k\<close>; the tags of main.go are ASCII letters.  A JSON value of the wrong
  kind, a number with a fraction or exponent part or beyond 64 bits for an \<^verbatim>\<open>int\<close>
  field, and a number beyond the range of float64 are type errors; the first one is
  the error returned.

  A slice is decoded over its backing array: the element at an index is decoded into
  what the backing array holds there.  An array shorter than the slice cuts the length
  and leaves the later elements in the backing array (the second list of the pair that
  \<open>unmarshal_slice\<close> works on), where a later, longer array finds them again;
  \<^verbatim>\<open>null\<close> and the empty array give a slice with no backing array.
\<close>

definition lower_ascii :: "char \<Rightarrow> char" where
  "lower_ascii c =
     (case map_of (zip ''ABCDEFGHIJKLMNOPQRSTUVWXYZ'' ''abcdefghijklmnopqrstuvwxyz'') c of
        Some d \<Rightarrow> d
      | None \<Rightarrow> c)"

fun foldName :: "string \<Rightarrow> string" where
  "foldName [] = []"
| "foldName [c] = [lower_ascii c]"
| "foldName (c # d # cs) =
     (if c = CHR 0xC5 \<and> d = CHR 0xBF then CHR ''s'' # foldName cs
      else
        (case cs of
           [] \<Rightarrow> lower_ascii c # foldName (d # cs)
         | x # cs' \<Rightarrow>
             if c = CHR 0xE2 \<and> d = CHR 0x84 \<and> x = CHR 0xAA then CHR ''k'' # foldName cs'
             else lower_ascii c # foldName (d # cs)))"

definition equalFold :: "string \<Rightarrow> string \<Rightarrow> bool" where
  "equalFold s t = (foldName s = foldName t)"

definition fieldByName :: "string list \<Rightarrow> string \<Rightarrow> string option" where
  "fieldByName tags k = (if k \<in> set tags then Some k else find (\<lambda>t. equalFold t k) tags)"

definition unmarshal_string :: "string \<Rightarrow> json \<Rightarrow> error + string" where
  "unmarshal_string old j =
     (case j of
        JString s \<Rightarrow> Inr s
      | JNull \<Rightarrow> Inr old
      | _ \<Rightarrow> Inl (UnmarshalTypeError (json_kind j) ''string''))"

definition unmarshal_int :: "int \<Rightarrow> json \<Rightarrow> error + int" where
  "unmarshal_int old j =
     (case j of
        JNumber (IntLit n) \<Rightarrow>
          (case ParseInt n of
             Some i \<Rightarrow> Inr i
           | None \<Rightarrow> Inl (UnmarshalTypeError ''number'' ''int''))
      | JNumber (FracLit q) \<Rightarrow> Inl (UnmarshalTypeError ''number'' ''int'')
      | JNull \<Rightarrow> Inr old
      | _ \<Rightarrow> Inl (UnmarshalTypeError (json_kind j) ''int''))"

definition unmarshal_float64 :: "float64 \<Rightarrow> json \<Rightarrow> error + float64" where
  "unmarshal_float64 old j =
     (case j of
        JNumber n \<Rightarrow>
          (case ParseFloat (number_value n) of
             Some f \<Rightarrow> Inr f
           | None \<Rightarrow> Inl (UnmarshalTypeError ''number'' ''float64''))
      | JNull \<Rightarrow> Inr old
      | _ \<Rightarrow> Inl (UnmarshalTypeError (json_kind j) ''float64''))"

definition unmarshal_interface :: "json \<Rightarrow> json \<Rightarrow> error + json" where
  "unmarshal_interface old j = Inr j"

fun unmarshal_members ::
  "(string \<Rightarrow> 'a \<Rightarrow> json \<Rightarrow> error + 'a) \<Rightarrow> 'a \<Rightarrow> (string \<times> json) list \<Rightarrow> error + 'a" where
  "unmarshal_members field v [] = Inr v"
| "unmarshal_members field v ((k, j) # ms) =
     (case field k v j of
        Inl e \<Rightarrow> Inl e
      | Inr v' \<Rightarrow> unmarshal_members field v' ms)"

definition unmarshal_struct ::
  "(string \<Rightarrow> 'a \<Rightarrow> json \<Rightarrow> error + 'a) \<Rightarrow> 'a \<Rightarrow> json \<Rightarrow> error + 'a" where
  "unmarshal_struct field old j =
     (case j of
        JObject ms \<Rightarrow> unmarshal_members field old ms
      | JNull \<Rightarrow> Inr old
      | _ \<Rightarrow> Inl (UnmarshalTypeError (json_kind j) ''struct''))"

fun unmarshal_elements ::
  "('a \<Rightarrow> json \<Rightarrow> error + 'a) \<Rightarrow> 'a \<Rightarrow> 'a list \<Rightarrow> json list \<Rightarrow> error + 'a list" where
  "unmarshal_elements elem z old [] = Inr []"
| "unmarshal_elements elem z old (j # js) =
     (case elem (case old of [] \<Rightarrow> z | x # _ \<Rightarrow> x) j of
        Inl e \<Rightarrow> Inl e
      | Inr y \<Rightarrow>
          (case unmarshal_elements elem z (tl old) js of
             Inl e \<Rightarrow> Inl e
           | Inr ys \<Rightarrow> Inr (y # ys)))"

definition unmarshal_slice ::
  "('a \<Rightarrow> json \<Rightarrow> error + 'a) \<Rightarrow> 'a \<Rightarrow> 'a list \<times> 'a list \<Rightarrow> json \<Rightarrow>
     error + ('a list \<times> 'a list)" where
  "unmarshal_slice elem z old j =
     (case j of
        JArray js \<Rightarrow>
          if js = [] then Inr ([], [])
          else
            map_sum id (\<lambda>ys. (ys, drop (length ys) (fst old @ snd old)))
              (unmarshal_elements elem z (fst old @ snd old) js)
      | JNull \<Rightarrow> Inr ([], [])
      | _ \<Rightarrow> Inl (UnmarshalTypeError (json_kind j) ''slice''))"

definition metric_tags :: "string list" where
  "metric_tags =
     [''temp'', ''heatIndex'', ''dewpt'', ''windChill'', ''windSpeed'', ''windGust'',
      ''pressure'', ''precipRate'', ''precipTotal'', ''elev'']"

definition metric_field :: "string \<Rightarrow> Metric \<Rightarrow> json \<Rightarrow> error + Metric" where
  "metric_field k m j =
     (case fieldByName metric_tags k of
        None \<Rightarrow> Inr m
      | Some f \<Rightarrow>
          if f = ''temp'' then
            map_sum id (\<lambda>x. m\<lparr>temp := x\<rparr>) (unmarshal_float64 (temp m) j)
          else if f = ''heatIndex'' then
            map_sum id (\<lambda>x. m\<lparr>heatIndex := x\<rparr>) (unmarshal_float64 (heatIndex m) j)
          else if f = ''dewpt'' then
            map_sum id (\<lambda>x. m\<lparr>dewpt := x\<rparr>) (unmarshal_float64 (dewpt m) j)
          else if f = ''windChill'' then
            map_sum id (\<lambda>x. m\<lparr>windChill := x\<rparr>) (unmarshal_float64 (windChill m) j)
          else if f = ''windSpeed'' then
            map_sum id (\<lambda>x. m\<lparr>windSpeed := x\<rparr>) (unmarshal_float64 (windSpeed m) j)
          else if f = ''windGust'' then
            map_sum id (\<lambda>x. m\<lparr>windGust := x\<rparr>) (unmarshal_float64 (windGust m) j)
          else if f = ''pressure'' then
            map_sum id (\<lambda>x. m\<lparr>pressure := x\<rparr>) (unmarshal_float64 (pressure m) j)
          else if f = ''precipRate'' then
            map_sum id (\<lambda>x. m\<lparr>precipRate := x\<rparr>) (unmarshal_float64 (precipRate m) j)
          else if f = ''precipTotal'' then
            map_sum id (\<lambda>x. m\<lparr>precipTotal := x\<rparr>) (unmarshal_float64 (precipTotal m) j)
          else
            map_sum id (\<lambda>x. m\<lparr>elev := x\<rparr>) (unmarshal_float64 (elev m) j))"

definition observation_tags :: "string list" where
  "observation_tags =
     [''stationID'', ''obsTimeUtc'', ''obsTimeLocal'', ''neighborhood'', ''softwareType'',
      ''country'', ''solarRadiation'', ''lat'', ''lon'', ''realtimeFrequency'', ''epoch'',
      ''uv'', ''winddir'', ''humidity'', ''qcStatus'', ''metric'']"

definition observation_field :: "string \<Rightarrow> Observation \<Rightarrow> json \<Rightarrow> error + Observation" where
  "observation_field k ob j =
     (case fieldByName observation_tags k of
        None \<Rightarrow> Inr ob
      | Some f \<Rightarrow>
          if f = ''stationID'' then
            map_sum id (\<lambda>x. ob\<lparr>stationID := x\<rparr>) (unmarshal_string (stationID ob) j)
          else if f = ''obsTimeUtc'' then
            map_sum id (\<lambda>x. ob\<lparr>obsTimeUtc := x\<rparr>) (unmarshal_string (obsTimeUtc ob) j)
          else if f = ''obsTimeLocal'' then
            map_sum id (\<lambda>x. ob\<lparr>obsTimeLocal := x\<rparr>) (unmarshal_string (obsTimeLocal ob) j)
          else if f = ''neighborhood'' then
            map_sum id (\<lambda>x. ob\<lparr>neighborhood := x\<rparr>) (unmarshal_string (neighborhood ob) j)
          else if f = ''softwareType'' then
            map_sum id (\<lambda>x. ob\<lparr>softwareType := x\<rparr>) (unmarshal_string (softwareType ob) j)
          else if f = ''country'' then
            map_sum id (\<lambda>x. ob\<lparr>country := x\<rparr>) (unmarshal_string (country ob) j)
          else if f = ''solarRadiation'' then
            map_sum id (\<lambda>x. ob\<lparr>solarRadiation := x\<rparr>)
              (unmarshal_float64 (solarRadiation ob) j)
          else if f = ''lat'' then
            map_sum id (\<lambda>x. ob\<lparr>lat := x\<rparr>) (unmarshal_float64 (lat ob) j)
          else if f = ''lon'' then
            map_sum id (\<lambda>x. ob\<lparr>lon := x\<rparr>) (unmarshal_float64 (lon ob) j)
          else if f = ''realtimeFrequency'' then
            map_sum id (\<lambda>x. ob\<lparr>realtimeFrequency := x\<rparr>)
              (unmarshal_interface (realtimeFrequency ob) j)
          else if f = ''epoch'' then
            map_sum id (\<lambda>x. ob\<lparr>epoch := x\<rparr>) (unmarshal_int (epoch ob) j)
          else if f = ''uv'' then
            map_sum id (\<lambda>x. ob\<lparr>uv := x\<rparr>) (unmarshal_float64 (uv ob) j)
          else if f = ''winddir'' then
            map_sum id (\<lambda>x. ob\<lparr>winddir := x\<rparr>) (unmarshal_int (winddir ob) j)
          else if f = ''humidity'' then
            map_sum id (\<lambda>x. ob\<lparr>humidity := x\<rparr>) (unmarshal_float64 (humidity ob) j)
          else if f = ''qcStatus'' then
            map_sum id (\<lambda>x. ob\<lparr>qcStatus := x\<rparr>) (unmarshal_int (qcStatus ob) j)
          else
            map_sum id (\<lambda>x. ob\<lparr>metric := x\<rparr>)
              (unmarshal_struct metric_field (metric ob) j))"

text \<open>
  The state of the decoding of a \<^verbatim>\<open>WeatherObservation\<close> is the struct together with the
  elements that the backing array of \<^verbatim>\<open>Observations\<close> holds beyond its length.
  \<^verbatim>\<open>fetchWeatherData\<close> decodes into a fresh variable, whose slice is nil.
\<close>

definition weatherObservation_field ::
  "string \<Rightarrow> WeatherObservation \<times> Observation list \<Rightarrow> json \<Rightarrow>
     error + (WeatherObservation \<times> Observation list)" where
  "weatherObservation_field k st j =
     (case fieldByName [''observations''] k of
        None \<Rightarrow> Inr st
      | Some f \<Rightarrow>
          map_sum id (\<lambda>sl. ((fst st)\<lparr>Observations := fst sl\<rparr>, snd sl))
            (unmarshal_slice (unmarshal_struct observation_field) zero_Observation
               (Observations (fst st), snd st) j))"

definition Unmarshal ::
  "(string \<Rightarrow> string + json) \<Rightarrow> string \<Rightarrow> WeatherObservation \<Rightarrow> error + WeatherObservation" where
  "Unmarshal scan body wo =
     (case scan body of
        Inl msg \<Rightarrow> Inl (SyntaxError msg)
      | Inr j \<Rightarrow> map_sum id fst (unmarshal_struct weatherObservation_field (wo, []) j))"

subsection \<open>The environment of a request\<close>

text \<open>
  \<open>http_get\<close> is the network, as \<^verbatim>\<open>fetchWeatherData\<close> sees it through \<^verbatim>\<open>http.Get\<close>
  and \<^verbatim>\<open>ioutil.ReadAll\<close>: for a URL, a failed request, a response whose body could
  not be read, or a status code and a body.  \<open>json_scan\<close> is the syntax scanner of
  \<^verbatim>\<open>encoding/json\<close>: the document of a text, or the message of a syntax error.
  \<open>valid_label\<close> is the check the metrics library applies to a label value.
  \<open>range_metrics\<close> and \<open>range_sensors\<close> give the order in which a \<^verbatim>\<open>range\<close> loop
  visits the entries of a map, which Go leaves open; main.go has two such loops.
\<close>

datatype http_result =
    GetFailed string
  | ReadFailed int string
  | Response int string

type_synonym addr = nat

record env =
  apiKey :: string
  http_get :: "string \<Rightarrow> http_result"
  json_scan :: "string \<Rightarrow> string + json"
  valid_label :: "string \<Rightarrow> bool"
  range_metrics :: "(string \<times> addr) list \<Rightarrow> (string \<times> addr) list"
  range_sensors :: "(string \<times> float64) list \<Rightarrow> (string \<times> float64) list"

subsection \<open>fmt.Sprintf\<close>

definition digit_char :: "nat \<Rightarrow> char" where
  "digit_char d = ''0123456789'' ! d"

fun nat_digits :: "nat \<Rightarrow> string" where
  "nat_digits n =
     (if n < 10 then [digit_char n] else nat_digits (n div 10) @ [digit_char (n mod 10)])"

declare nat_digits.simps [simp del]

definition Sprintf_d :: "int \<Rightarrow> string" where
  "Sprintf_d n = (if n < 0 then CHR ''-'' # nat_digits (nat (- n)) else nat_digits (nat n))"

definition weatherAPIEndpoint :: "string \<Rightarrow> string \<Rightarrow> string" where
  "weatherAPIEndpoint station key =
     ''https://api.weather.com/v2/pws/observations/current?stationId='' @ station @
     ''&format=json&apiKey='' @ key @ ''&units=m&numericPrecision=decimal''"

subsection \<open>WeatherData and fetchWeatherData\<close>

text \<open>
  \<^verbatim>\<open>Sensors\<close> is a Go map built by a literal with eleven distinct keys; the model keeps
  its entries as a list in the order of the literal.  The zero value of \<^verbatim>\<open>WeatherData\<close>
  has the nil map, which has no entry.
\<close>

record WeatherData =
  StationID :: string
  Epoch :: int
  Latitude :: float64
  Longitude :: float64
  Elevation :: float64
  Neighborhood :: string
  SoftwareType :: string
  Country :: string
  Sensors :: "(string \<times> float64) list"

definition zero_WeatherData :: WeatherData where
  "zero_WeatherData =
     \<lparr>StationID = [], Epoch = 0, Latitude = 0, Longitude = 0, Elevation = 0,
      Neighborhood = [], SoftwareType = [], Country = [], Sensors = []\<rparr>"

definition weatherData_of :: "string \<Rightarrow> Observation \<Rightarrow> WeatherData" where
  "weatherData_of station obs =
     \<lparr>StationID = station,
      Epoch = epoch obs,
      Latitude = lat obs,
      Longitude = lon obs,
      Elevation = elev (metric obs),
      Neighborhood = neighborhood obs,
      SoftwareType = softwareType obs,
      Country = country obs,
      Sensors =
        [(''temperature'', temp (metric obs)),
         (''dewpoint'', dewpt (metric obs)),
         (''humidity'', humidity obs),
         (''pressure'', pressure (metric obs)),
         (''windspeed'', windSpeed (metric obs)),
         (''winddirection'', float64_of_int (winddir obs)),
         (''windgust'', windGust (metric obs)),
         (''precipitation_rate'', precipRate (metric obs)),
         (''precipitation_total'', precipTotal (metric obs)),
         (''uv_index'', uv obs),
         (''solar_radiation'', solarRadiation obs)]\<rparr>"

text \<open>
  \<^verbatim>\<open>fetchWeatherData\<close> returns a pair of a \<^verbatim>\<open>WeatherData\<close> and an error
  (\<open>None\<close> for \<^verbatim>\<open>nil\<close>).  The expression \<^verbatim>\<open>weatherObservation.Observations[0]\<close> is
  evaluated with no test of the length before it: on an empty slice the Go runtime
  panics.
\<close>

definition fetchWeatherData :: "env \<Rightarrow> string \<Rightarrow> (WeatherData \<times> error option) outcome" where
  "fetchWeatherData e station =
     (case http_get e (weatherAPIEndpoint station (apiKey e)) of
        GetFailed msg \<Rightarrow> Returned (zero_WeatherData, Some (GetError msg))
      | ReadFailed code msg \<Rightarrow> Returned (zero_WeatherData, Some (ReadAllError msg))
      | Response code body \<Rightarrow>
          if code \<noteq> 200 then
            Returned (zero_WeatherData,
              Some (ErrorString
                (''API request failed with status '' @ Sprintf_d code @ '': '' @ body)))
          else
            (case Unmarshal (json_scan e) body zero_WeatherObservation of
               Inl err \<Rightarrow> Returned (zero_WeatherData, Some err)
             | Inr wo \<Rightarrow>
                 (case Observations wo of
                    [] \<Rightarrow> Panic ''runtime error: index out of range [0] with length 0''
                  | obs # rest \<Rightarrow> Returned (weatherData_of station obs, None))))"

subsection \<open>Gauge vectors, the registry and the heap\<close>

text \<open>
  \<^verbatim>\<open>newWeatherMetrics\<close> returns a map from sensor keys to pointers to gauge vectors, and
  the handler hands the same pointers to the registry: what the handler sets through
  the map is what the registry renders.  The model keeps the gauge vectors in a heap
  (a list, an address being an index); the map and the registry hold addresses.

  Of the metrics library the model keeps: a gauge vector has a name, a help text,
  label names and one child (a value) per tuple of label values;
  \<^verbatim>\<open>WithLabelValues\<close> panics unless it is given as many values as the vector has label
  names, all of them valid, and makes the child if there is none; \<^verbatim>\<open>MustRegister\<close>
  panics on a name that is registered already; \<^verbatim>\<open>Gather\<close> returns one family per
  registered vector that has a child, the families sorted by name, the samples of a
  family sorted by their label values, the labels of a sample sorted by name.
\<close>

record GaugeOpts =
  Name :: string
  Help :: string

record GaugeVec =
  gaugeOpts :: GaugeOpts
  labelNames :: "string list"
  children :: "(string list \<times> float64) list"

type_synonym heap = "GaugeVec list"

definition NewGaugeVec :: "GaugeOpts \<Rightarrow> string list \<Rightarrow> GaugeVec" where
  "NewGaugeVec opts labels = \<lparr>gaugeOpts = opts, labelNames = labels, children = []\<rparr>"

definition load :: "heap \<Rightarrow> addr \<Rightarrow> GaugeVec option" where
  "load h a = (if a < length h then Some (h ! a) else None)"

definition new_all :: "heap \<Rightarrow> (string \<times> GaugeVec) list \<Rightarrow> (string \<times> addr) list \<times> heap" where
  "new_all h kvs =
     (zip (map fst kvs) [length h ..< length h + length kvs], h @ map snd kvs)"

definition weatherMetricsLiteral :: "(string \<times> GaugeVec) list" where
  "weatherMetricsLiteral =
     (let labels = [''stationID'', ''neighborhood'', ''softwareType'', ''country'']
      in
       [
        (''temperature'',
         NewGaugeVec \<lparr>Name = ''wunderground_temp'',
           Help = ''Air temperature in degrees Celsius''\<rparr> labels),
        (''dewpoint'',
         NewGaugeVec \<lparr>Name = ''wunderground_dewpt'',
           Help = ''Dew point temperature in degrees Celsius''\<rparr> labels),
        (''humidity'',
         NewGaugeVec \<lparr>Name = ''wunderground_humidity'',
           Help = ''Relative humidity in percentage''\<rparr> labels),
        (''pressure'',
         NewGaugeVec \<lparr>Name = ''wunderground_pressure'',
           Help = ''Atmospheric pressure at sea level in hectopascals''\<rparr> labels),
        (''windspeed'',
         NewGaugeVec \<lparr>Name = ''wunderground_windSpeed'',
           Help = ''Wind speed in meters per second''\<rparr> labels),
        (''winddirection'',
         NewGaugeVec \<lparr>Name = ''wunderground_windDir'',
           Help = ''Wind direction in degrees''\<rparr> labels),
        (''windgust'',
         NewGaugeVec \<lparr>Name = ''wunderground_windGust'',
           Help = ''Wind gust speed in meters per second''\<rparr> labels),
        (''precipitation_rate'',
         NewGaugeVec \<lparr>Name = ''wunderground_precipRate'',
           Help = ''Precipitation rate in millimeters per hour''\<rparr> labels),
        (''precipitation_total'',
         NewGaugeVec \<lparr>Name = ''wunderground_precipTotal'',
           Help = ''Total accumulated precipitation in millimeters''\<rparr> labels),
        (''uv_index'',
         NewGaugeVec \<lparr>Name = ''wunderground_uv'',
           Help = ''Ultraviolet Index''\<rparr> labels),
        (''solar_radiation'',
         NewGaugeVec \<lparr>Name = ''wunderground_solarRadiation'',
           Help = ''Solar radiation in watts per square meter''\<rparr> labels),
        (''epoch'',
         NewGaugeVec \<lparr>Name = ''wunderground_epoch'',
           Help = ''Epoch time in seconds''\<rparr> labels),
        (''visibility'',
         NewGaugeVec \<lparr>Name = ''wunderground_visibility'',
           Help = ''Visibility in meters''\<rparr> labels),
        (''soil_temperature'',
         NewGaugeVec \<lparr>Name = ''wunderground_soilTemp'',
           Help = ''Soil temperature in degrees Celsius''\<rparr> labels),
        (''soil_moisture'',
         NewGaugeVec \<lparr>Name = ''wunderground_soilMoisture'',
           Help = ''Soil moisture in percentage''\<rparr> labels),
        (''windchill'',
         NewGaugeVec \<lparr>Name = ''wunderground_windChill'',
           Help = ''Wind chill temperature in degrees Celsius''\<rparr> labels),
        (''elevation'',
         NewGaugeVec \<lparr>Name = ''wunderground_elevation'',
           Help = ''Elevation in meters''\<rparr> labels),
        (''latitude'',
         NewGaugeVec \<lparr>Name = ''wunderground_latitude'',
           Help = ''Latitude''\<rparr> labels),
        (''longitude'',
         NewGaugeVec \<lparr>Name = ''wunderground_longitude'',
           Help = ''Longitude''\<rparr> labels)])"

definition newWeatherMetrics :: "heap \<Rightarrow> (string \<times> addr) list \<times> heap" where
  "newWeatherMetrics h = new_all h weatherMetricsLiteral"

definition MustRegister :: "heap \<Rightarrow> addr list \<Rightarrow> addr \<Rightarrow> addr list outcome" where
  "MustRegister h reg a =
     (case load h a of
        None \<Rightarrow> Panic ''invalid memory address or nil pointer dereference''
      | Some g \<Rightarrow>
          if Name (gaugeOpts g) \<in> set (map (\<lambda>g'. Name (gaugeOpts g')) (List.map_filter (load h) reg))
          then Panic ''duplicate metrics collector registration attempted''
          else Returned (reg @ [a]))"

fun register_all :: "heap \<Rightarrow> addr list \<Rightarrow> addr list \<Rightarrow> addr list outcome" where
  "register_all h reg [] = Returned reg"
| "register_all h reg (a # as) =
     (case MustRegister h reg a of
        Panic m \<Rightarrow> Panic m
      | Returned reg' \<Rightarrow> register_all h reg' as)"

fun set_child :: "string list \<Rightarrow> float64 \<Rightarrow> (string list \<times> float64) list \<Rightarrow> (string list \<times> float64) list" where
  "set_child lvs v [] = [(lvs, v)]"
| "set_child lvs v ((k, w) # cs) =
     (if k = lvs then (k, v) # cs else (k, w) # set_child lvs v cs)"

definition WithLabelValues_Set ::
  "(string \<Rightarrow> bool) \<Rightarrow> heap \<Rightarrow> addr \<Rightarrow> string list \<Rightarrow> float64 \<Rightarrow> heap outcome" where
  "WithLabelValues_Set valid h a lvs v =
     (case load h a of
        None \<Rightarrow> Panic ''invalid memory address or nil pointer dereference''
      | Some g \<Rightarrow>
          if length lvs = length (labelNames g) \<and> list_all valid lvs
          then Returned (h[a := g\<lparr>children := set_child lvs v (children g)\<rparr>])
          else Panic ''inconsistent label cardinality or invalid label value'')"

subsection \<open>Gather\<close>

record Sample =
  Label :: "(string \<times> string) list"
  Gauge :: float64

record MetricFamily =
  familyName :: string
  familyHelp :: string
  familyMetric :: "Sample list"

definition sample_of :: "GaugeVec \<Rightarrow> string list \<times> float64 \<Rightarrow> Sample" where
  "sample_of g c = \<lparr>Label = sort_key fst (zip (labelNames g) (fst c)), Gauge = snd c\<rparr>"

definition family_of :: "GaugeVec \<Rightarrow> MetricFamily" where
  "family_of g =
     \<lparr>familyName = Name (gaugeOpts g),
      familyHelp = Help (gaugeOpts g),
      familyMetric = sort_key (\<lambda>s. map snd (Label s)) (map (sample_of g) (children g))\<rparr>"

definition Gather :: "heap \<Rightarrow> addr list \<Rightarrow> MetricFamily list" where
  "Gather h reg =
     sort_key familyName
       (map family_of (filter (\<lambda>g. children g \<noteq> []) (List.map_filter (load h) reg)))"

subsection \<open>The handler of /scrape\<close>

text \<open>
  The handler answers 400 with a text, 500 with the text
  \<^verbatim>\<open>Failed to fetch weather data: \<close> followed by the message of the error of
  \<^verbatim>\<open>fetchWeatherData\<close> (\<open>Status500\<close> keeps the error), or 200 with the rendering of
  the gathered families in the text format; that format is a function of the gathered
  families, which stand for it here.  \<open>populate\<close> is the loop over
  \<^verbatim>\<open>weatherData.Sensors\<close>, \<open>render\<close> the part of the handler from
  \<^verbatim>\<open>prometheus.NewRegistry()\<close> to the end, \<open>scrape\<close> the handler; its argument is
  the value of the query parameter \<^verbatim>\<open>station_id\<close>, empty when the parameter is absent.
  \<open>range_permutes\<close> says that the two \<^verbatim>\<open>range\<close> loops visit every entry of their map
  once, in some order.
\<close>

datatype response =
    Status400 string
  | Status500 error
  | Status200 "MetricFamily list"

fun populate ::
  "env \<Rightarrow> (string \<times> addr) list \<Rightarrow> string \<Rightarrow> WeatherData \<Rightarrow> heap \<Rightarrow> (string \<times> float64) list \<Rightarrow> heap outcome" where
  "populate e weatherMetrics station d h [] = Returned h"
| "populate e weatherMetrics station d h ((sensor, v) # rest) =
     (case map_of weatherMetrics sensor of
        None \<Rightarrow> populate e weatherMetrics station d h rest
      | Some a \<Rightarrow>
          (case WithLabelValues_Set (valid_label e) h a
                  [station, Neighborhood d, SoftwareType d, Country d] v of
             Panic m \<Rightarrow> Panic m
           | Returned h' \<Rightarrow> populate e weatherMetrics station d h' rest))"

definition render :: "env \<Rightarrow> string \<Rightarrow> WeatherData \<Rightarrow> MetricFamily list outcome" where
  "render e station d =
     (case newWeatherMetrics [] of
        (weatherMetrics, h) \<Rightarrow>
          (case register_all h [] (map snd (range_metrics e weatherMetrics)) of
             Panic m \<Rightarrow> Panic m
           | Returned registry \<Rightarrow>
               (case populate e weatherMetrics station d h (range_sensors e (Sensors d)) of
                  Panic m \<Rightarrow> Panic m
                | Returned h' \<Rightarrow> Returned (Gather h' registry))))"

definition scrape :: "env \<Rightarrow> string \<Rightarrow> response outcome" where
  "scrape e station =
     (if station = [] then Returned (Status400 ''station_id query parameter is required'')
      else
        (case fetchWeatherData e station of
           Panic m \<Rightarrow> Panic m
         | Returned (d, Some err) \<Rightarrow> Returned (Status500 err)
         | Returned (d, None) \<Rightarrow>
             (case render e station d of
                Panic m \<Rightarrow> Panic m
              | Returned families \<Rightarrow> Returned (Status200 families))))"

definition range_permutes :: "env \<Rightarrow> bool" where
  "range_permutes e =
     ((\<forall>xs. mset (range_metrics e xs) = mset xs) \<and>
      (\<forall>xs. mset (range_sensors e xs) = mset xs))"

subsection \<open>The types of the numeric fields\<close>

text \<open>
  The tags of the fields of an observation entry declared \<^verbatim>\<open>int\<close>, and of those
  declared \<^verbatim>\<open>float64\<close> outside the nested \<^verbatim>\<open>metric\<close> struct (whose ten fields, the
  \<open>metric_tags\<close>, are all \<^verbatim>\<open>float64\<close>).
\<close>

definition int_tags :: "string list" where
  "int_tags = [''epoch'', ''winddir'', ''qcStatus'']"

definition float_tags :: "string list" where
  "float_tags = [''solarRadiation'', ''lat'', ''lon'', ''uv'', ''humidity'']"

subsection \<open>Notions used to state and prove the properties\<close>

text \<open>
  \<open>labels4\<close> are the label names of every gauge vector of \<^verbatim>\<open>newWeatherMetrics\<close>.
  \<open>set_sensor\<close> is the effect of one round of the population loop that does not panic.
  \<open>loadable\<close> says that every address of the map holds a gauge vector with four label
  names, \<open>labelled\<close> that every gauge vector of the heap has the four label names and no
  child but for the given label values.  \<open>rendered s obs\<close> are the eleven families, in
  the order of their names, with one sample each, labelled with the station \<open>s\<close> of the
  request and the neighbourhood, software type and country of the entry \<open>obs\<close>.
\<close>

text \<open>
  \<open>decimal_value\<close> reads a decimal numeral, with an optional minus sign, back into
  the integer it writes; it is used to say what \<open>Sprintf_d\<close> produces.
\<close>

definition digit_value :: "char \<Rightarrow> nat" where
  "digit_value c =
     (case map_of (zip ''0123456789'' [0, 1, 2, 3, 4, 5, 6, 7, 8, 9]) c of
        Some d \<Rightarrow> d
      | None \<Rightarrow> 0)"

definition digits_value :: "string \<Rightarrow> nat" where
  "digits_value ds = foldl (\<lambda>n c. 10 * n + digit_value c) 0 ds"

definition decimal_value :: "string \<Rightarrow> int" where
  "decimal_value s =
     (case s of
        [] \<Rightarrow> 0
      | c # ds \<Rightarrow> if c = CHR ''-'' then - int (digits_value ds) else int (digits_value s))"

definition labels4 :: "string list" where
  "labels4 = [''stationID'', ''neighborhood'', ''softwareType'', ''country'']"

definition set_sensor :: "(string \<times> addr) list \<Rightarrow> string list \<Rightarrow> string \<times> float64 \<Rightarrow> heap \<Rightarrow> heap" where
  "set_sensor wm lvs kv h =
     (case map_of wm (fst kv) of
        None \<Rightarrow> h
      | Some a \<Rightarrow> h[a := (h ! a)\<lparr>children := set_child lvs (snd kv) (children (h ! a))\<rparr>])"

definition loadable :: "(string \<times> addr) list \<Rightarrow> heap \<Rightarrow> bool" where
  "loadable wm h = list_all (\<lambda>ka. snd ka < length h \<and> length (labelNames (h ! snd ka)) = 4) wm"

definition labelled :: "string list \<Rightarrow> heap \<Rightarrow> bool" where
  "labelled lvs h =
     list_all (\<lambda>g. labelNames g = labels4 \<and> list_all (\<lambda>c. fst c = lvs) (children g)) h"

definition sample_for :: "string \<Rightarrow> Observation \<Rightarrow> float64 \<Rightarrow> Sample" where
  "sample_for s obs v =
     \<lparr>Label =
        [(''country'', country obs), (''neighborhood'', neighborhood obs),
         (''softwareType'', softwareType obs), (''stationID'', s)],
      Gauge = v\<rparr>"

definition rendered :: "string \<Rightarrow> Observation \<Rightarrow> MetricFamily list" where
  "rendered s obs =
     [
      \<lparr>familyName = ''wunderground_dewpt'',
        familyHelp = ''Dew point temperature in degrees Celsius'',
        familyMetric = [sample_for s obs (dewpt (metric obs))]\<rparr>,
      \<lparr>familyName = ''wunderground_humidity'',
        familyHelp = ''Relative humidity in percentage'',
        familyMetric = [sample_for s obs (humidity obs)]\<rparr>,
      \<lparr>familyName = ''wunderground_precipRate'',
        familyHelp = ''Precipitation rate in millimeters per hour'',
        familyMetric = [sample_for s obs (precipRate (metric obs))]\<rparr>,
      \<lparr>familyName = ''wunderground_precipTotal'',
        familyHelp = ''Total accumulated precipitation in millimeters'',
        familyMetric = [sample_for s obs (precipTotal (metric obs))]\<rparr>,
      \<lparr>familyName = ''wunderground_pressure'',
        familyHelp = ''Atmospheric pressure at sea level in hectopascals'',
        familyMetric = [sample_for s obs (pressure (metric obs))]\<rparr>,
      \<lparr>familyName = ''wunderground_solarRadiation'',
        familyHelp = ''Solar radiation in watts per square meter'',
        familyMetric = [sample_for s obs (solarRadiation obs)]\<rparr>,
      \<lparr>familyName = ''wunderground_temp'',
        familyHelp = ''Air temperature in degrees Celsius'',
        familyMetric = [sample_for s obs (temp (metric obs))]\<rparr>,
      \<lparr>familyName = ''wunderground_uv'',
        familyHelp = ''Ultraviolet Index'',
        familyMetric = [sample_for s obs (uv obs)]\<rparr>,
      \<lparr>familyName = ''wunderground_windDir'',
        familyHelp = ''Wind direction in degrees'',
        familyMetric = [sample_for s obs (float64_of_int (winddir obs))]\<rparr>,
      \<lparr>familyName = ''wunderground_windGust'',
        familyHelp = ''Wind gust speed in meters per second'',
        familyMetric = [sample_for s obs (windGust (metric obs))]\<rparr>,
      \<lparr>familyName = ''wunderground_windSpeed'',
        familyHelp = ''Wind speed in meters per second'',
        familyMetric = [sample_for s obs (windSpeed (metric obs))]\<rparr>]"

subsection \<open>Example requests\<close>

text \<open>
  An environment whose network answers the request for station \<open>KTEST1\<close> with the
  given result, whose scanner reads the given document from the body, which accepts
  every label value and visits maps in the order given by the two functions.
\<close>

definition example_env ::
  "http_result \<Rightarrow> json \<Rightarrow> ((string \<times> addr) list \<Rightarrow> (string \<times> addr) list) \<Rightarrow>
     ((string \<times> float64) list \<Rightarrow> (string \<times> float64) list) \<Rightarrow> env" where
  "example_env r doc rm rs =
     \<lparr>apiKey = ''KEY'',
      http_get =
        (\<lambda>url. if url = weatherAPIEndpoint ''KTEST1'' ''KEY'' then r
               else GetFailed ''no such host''),
      json_scan = (\<lambda>body. Inr doc),
      valid_label = (\<lambda>v. True),
      range_metrics = rm,
      range_sensors = rs\<rparr>"

definition entry_A :: json where
  "entry_A =
     JObject
      [(''stationID'', JString ''OTHER''),
       (''neighborhood'', JString ''Downtown''),
       (''softwareType'', JString ''WS-1''),
       (''country'', JString ''US''),
       (''epoch'', JNumber (IntLit 1700000000)),
       (''winddir'', JNumber (IntLit 270)),
       (''humidity'', JNumber (FracLit (221 / 4))),
       (''metric'',
        JObject
         [(''temp'', JNumber (FracLit (43 / 2))),
          (''pressure'', JNumber (FracLit (4053 / 4)))])]"

definition obs_A :: Observation where
  "obs_A =
     zero_Observation
      \<lparr>stationID := ''OTHER'', neighborhood := ''Downtown'', softwareType := ''WS-1'',
       country := ''US'', epoch := 1700000000, winddir := 270, humidity := 221 / 4,
       metric := zero_Metric\<lparr>temp := 43 / 2, pressure := 4053 / 4\<rparr>\<rparr>"

definition doc_one :: json where
  "doc_one = JObject [(''observations'', JArray [entry_A])]"

definition entry_B :: json where
  "entry_B = JObject [(''stationID'', JString ''KTEST2''), (''humidity'', JNumber (IntLit 10))]"

definition obs_B :: Observation where
  "obs_B = zero_Observation\<lparr>stationID := ''KTEST2'', humidity := 10\<rparr>"

definition doc_two :: json where
  "doc_two = JObject [(''observations'', JArray [entry_A, entry_B])]"

definition doc_later_fractional :: json where
  "doc_later_fractional =
     JObject
      [(''observations'',
        JArray [entry_A, JObject [(''epoch'', JNumber (FracLit (3 / 2)))]])]"

definition doc_empty :: json where
  "doc_empty = JObject [(''observations'', JArray [])]"

definition doc_fractional_epoch :: json where
  "doc_fractional_epoch =
     JObject [(''observations'', JArray [JObject [(''epoch'', JNumber (FracLit (3 / 2)))]])]"

definition doc_fractional_lat :: json where
  "doc_fractional_lat =
     JObject [(''observations'', JArray [JObject [(''lat'', JNumber (FracLit (3 / 2)))]])]"

definition doc_large_winddir :: json where
  "doc_large_winddir =
     JObject
      [(''observations'', JArray [JObject [(''winddir'', JNumber (IntLit 9007199254740993))]])]"

definition obs_large_winddir :: Observation where
  "obs_large_winddir = zero_Observation\<lparr>winddir := 9007199254740993\<rparr>"

section \<open>Properties\<close>

subsection \<open>The conversion of an integer to float64\<close>

lemma round_half_even_of_int: "round_half_even (of_int k) = k"
  by (simp add: round_half_even_def)

lemma ilog2_of_int:
  assumes "0 < k"
  shows "ilog2 (of_int k) = bitlen k - 1"
proof -
  have b: "2 ^ nat (bitlen k - 1) \<le> k" using bitlen_bounds [OF assms] by simp
  have p: "0 \<le> bitlen k - 1" using assms bitlen_nonneg [of k] bitlen_eq_zero_iff [of k] by (smt (verit))
  have "(2::rat) powi (bitlen k - 1) = of_int (2 ^ nat (bitlen k - 1))"
    using p by (simp add: power_int_def)
  also have "\<dots> \<le> of_int k" using b by (simp only: of_int_le_iff)
  finally have le: "(2::rat) powi (bitlen k - 1) \<le> of_int k" .
  have one: "bitlen 1 = 1" by code_simp
  show ?thesis using le by (simp add: ilog2_def one Let_def)
qed

lemma round_float64_of_int_small:
  assumes "\<bar>n\<bar> < 2 ^ 53"
  shows "round_float64 (of_int n) = of_int n"
proof (cases "n = 0")
  case True
  then show ?thesis by (simp add: round_float64_def)
next
  case False
  define c where "c = bitlen \<bar>n\<bar> - 1"
  have pos: "0 < \<bar>n\<bar>" using False by simp
  have il: "ilog2 \<bar>of_int n\<bar> = c"
    using ilog2_of_int [OF pos] by (simp add: c_def)
  have c0: "0 \<le> c" using pos bitlen_nonneg [of "\<bar>n\<bar>"] bitlen_eq_zero_iff [of "\<bar>n\<bar>"] unfolding c_def by (smt (verit))
  have "bitlen \<bar>n\<bar> \<le> 53" using assms by (simp add: bitlen_le_iff_power)
  then have c52: "c \<le> 52" by (simp add: c_def)
  define m where "m = nat (52 - c)"
  have ue: "max (c - 52) (- 1074) = - int m" using c0 c52 by (simp add: m_def)
  have pw: "(2::rat) powi (- int m) = 1 / 2 ^ m" by (simp add: power_int_def field_simps)
  have "round_float64 (of_int n) = of_int (round_half_even (of_int n / (1 / 2 ^ m))) * (1 / 2 ^ m)"
    using False by (simp add: round_float64_def il ue pw Let_def)
  also have "of_int n / (1 / 2 ^ m) = (of_int (n * 2 ^ m) :: rat)" by simp
  also have "round_half_even (of_int (n * 2 ^ m)) = n * 2 ^ m"
    by (rule round_half_even_of_int)
  also have "(of_int (n * 2 ^ m) :: rat) * (1 / 2 ^ m) = of_int n" by simp
  finally show ?thesis .
qed

text \<open>The rounding at some known values: 0.1, two integers beyond \<open>2^53\<close>, -1/3.\<close>

lemma round_float64_examples:
  "round_float64 (1 / 10) = 3602879701896397 / 36028797018963968"
  "round_float64 (2 ^ 53 + 1) = 2 ^ 53"
  "round_float64 (2 ^ 53 + 3) = 2 ^ 53 + 4"
  "round_float64 (- (1 / 3)) = - (6004799503160661 / 18014398509481984)"
  by code_simp+

lemma float64_of_int_exact:
  assumes "\<bar>n\<bar> \<le> 2 ^ 53"
  shows "float64_of_int n = of_int n"
proof (cases "\<bar>n\<bar> < 2 ^ 53")
  case True
  then show ?thesis by (simp add: float64_of_int_def round_float64_of_int_small)
next
  case False
  with assms have "n = 2 ^ 53 \<or> n = - (2 ^ 53)" by linarith
  moreover have "float64_of_int (2 ^ 53) = of_int (2 ^ 53)" by code_simp
  moreover have "float64_of_int (- (2 ^ 53)) = of_int (- (2 ^ 53))" by code_simp
  ultimately show ?thesis by auto
qed

subsection \<open>The decimal numeral of an integer\<close>

lemma digit_char_cases:
  assumes "d < 10"
  shows "digit_char d \<in> set ''0123456789'' \<and> digit_value (digit_char d) = d"
proof -
  from assms have "d \<in> {0, 1, 2, 3, 4, 5, 6, 7, 8, 9}" by auto
  then show ?thesis
    by (elim insertE emptyE) (simp_all add: digit_char_def digit_value_def)
qed

lemma digits_value_snoc: "digits_value (ds @ [c]) = 10 * digits_value ds + digit_value c"
  by (simp add: digits_value_def)

lemma nat_digits_chars: "set (nat_digits n) \<subseteq> set ''0123456789''"
proof (induction n rule: nat_digits.induct)
  case (1 n)
  show ?case
  proof (cases "n < 10")
    case True
    with digit_char_cases [of n] show ?thesis by (subst nat_digits.simps) simp
  next
    case False
    with 1 digit_char_cases [of "n mod 10"] show ?thesis by (subst nat_digits.simps) simp
  qed
qed

lemma nat_digits_not_Nil: "nat_digits n \<noteq> []"
  by (subst nat_digits.simps) simp

lemma digits_value_nat_digits: "digits_value (nat_digits n) = n"
proof (induction n rule: nat_digits.induct)
  case (1 n)
  show ?case
  proof (cases "n < 10")
    case True
    with digit_char_cases [of n] show ?thesis
      by (subst nat_digits.simps) (simp add: digits_value_def)
  next
    case False
    with 1 digit_char_cases [of "n mod 10"] show ?thesis
      by (subst nat_digits.simps) (simp add: digits_value_snoc)
  qed
qed

lemma decimal_value_Sprintf_d: "decimal_value (Sprintf_d n) = n"
proof (cases "n < 0")
  case True
  then show ?thesis by (simp add: Sprintf_d_def decimal_value_def digits_value_nat_digits)
next
  case False
  obtain c ds where cd: "nat_digits (nat n) = c # ds"
    using nat_digits_not_Nil [of "nat n"] by (cases "nat_digits (nat n)") auto
  then have "c \<in> set ''0123456789''" using nat_digits_chars [of "nat n"] by auto
  then have "c \<noteq> CHR ''-''" by auto
  with False cd digits_value_nat_digits [of "nat n"] show ?thesis
    by (simp add: Sprintf_d_def decimal_value_def)
qed

lemma Sprintf_d_no_colon: "CHR '':'' \<notin> set (Sprintf_d n)"
  using nat_digits_chars [of "nat n"] nat_digits_chars [of "nat (- n)"]
  by (auto simp: Sprintf_d_def)

lemma append_sep_inject:
  assumes "c \<notin> set xs" and "c \<notin> set xs'" and "xs @ c # ys = xs' @ c # ys'"
  shows "xs = xs' \<and> ys = ys'"
  using assms
proof (induction xs arbitrary: xs')
  case Nil
  then show ?case by (cases xs') auto
next
  case (Cons x xs)
  then show ?case by (cases xs') auto
qed

lemma status_message_inject:
  assumes "''API request failed with status '' @ Sprintf_d code' @ '': '' @ body' =
      ''API request failed with status '' @ Sprintf_d code @ '': '' @ body"
  shows "code' = code \<and> body' = body"
proof -
  from assms have "Sprintf_d code' @ CHR '':'' # (CHR '' '' # body') =
      Sprintf_d code @ CHR '':'' # (CHR '' '' # body)"
    by simp
  from append_sep_inject [OF Sprintf_d_no_colon Sprintf_d_no_colon this]
  have eq: "Sprintf_d code' = Sprintf_d code" and b: "body' = body" by simp_all
  have "code' = decimal_value (Sprintf_d code')" by (simp only: decimal_value_Sprintf_d)
  also have "\<dots> = decimal_value (Sprintf_d code)" by (simp only: eq)
  also have "\<dots> = code" by (rule decimal_value_Sprintf_d)
  finally show ?thesis using b by simp
qed

subsection \<open>Decoding\<close>

lemma unmarshal_members_fails:
  "(k, j) \<in> set ms \<Longrightarrow> (\<And>v. isl (field k v j)) \<Longrightarrow> isl (unmarshal_members field v ms)"
proof (induction ms arbitrary: v)
  case Nil
  then show ?case by simp
next
  case (Cons m ms)
  obtain k' j' where m: "m = (k', j')" by (cases m)
  show ?case
  proof (cases "field k' v j'")
    case (Inl err)
    then show ?thesis by (simp add: m)
  next
    case (Inr v')
    show ?thesis
    proof (cases "(k, j) = (k', j')")
      case True
      with Cons.prems(2) [of v] Inr show ?thesis by simp
    next
      case False
      with Cons.prems(1) m have "(k, j) \<in> set ms" by auto
      from Cons.IH [OF this Cons.prems(2)] show ?thesis by (simp add: m Inr)
    qed
  qed
qed

lemma unmarshal_elements_fails:
  "j \<in> set js \<Longrightarrow> (\<And>v. isl (elem v j)) \<Longrightarrow> isl (unmarshal_elements elem z old js)"
proof (induction js arbitrary: old)
  case Nil
  then show ?case by simp
next
  case (Cons j' js)
  show ?case
  proof (cases "j = j'")
    case True
    with Cons.prems(2) [of "case old of [] \<Rightarrow> z | x # xa \<Rightarrow> x"] show ?thesis
      by (auto split: sum.splits)
  next
    case False
    with Cons.prems(1) have "j \<in> set js" by simp
    from Cons.IH [OF this Cons.prems(2), of "tl old"] show ?thesis
      by (auto split: sum.splits)
  qed
qed

lemma unmarshal_int_frac:
  "unmarshal_int old (JNumber (FracLit q)) = Inl (UnmarshalTypeError ''number'' ''int'')"
  by (simp add: unmarshal_int_def)

lemma fieldByName_exact: "k \<in> set tags \<Longrightarrow> fieldByName tags k = Some k"
  by (simp add: fieldByName_def)

lemma observation_field_int_frac:
  assumes "k \<in> set int_tags"
  shows "observation_field k ob (JNumber (FracLit q)) = Inl (UnmarshalTypeError ''number'' ''int'')"
proof -
  have "fieldByName observation_tags k = Some k"
    using assms by (intro fieldByName_exact) (auto simp: int_tags_def observation_tags_def)
  then show ?thesis
    using assms by (auto simp: observation_field_def int_tags_def unmarshal_int_frac)
qed

lemma observation_field_float:
  assumes "k \<in> set float_tags" and "ParseFloat (number_value n) = Some f"
  shows "\<exists>ob'. observation_field k ob (JNumber n) = Inr ob'"
proof -
  have "fieldByName observation_tags k = Some k"
    using assms(1) by (intro fieldByName_exact) (auto simp: float_tags_def observation_tags_def)
  then show ?thesis
    using assms by (auto simp: observation_field_def float_tags_def unmarshal_float64_def)
qed

lemma metric_field_float:
  assumes "k \<in> set metric_tags" and "ParseFloat (number_value n) = Some f"
  shows "\<exists>m'. metric_field k m (JNumber n) = Inr m'"
proof -
  have "fieldByName metric_tags k = Some k"
    using assms(1) by (intro fieldByName_exact)
  then show ?thesis
    using assms by (auto simp: metric_field_def metric_tags_def unmarshal_float64_def)
qed

lemma Unmarshal_int_frac_fails:
  assumes "scan body = Inr (JObject ms)"
    and "(''observations'', JArray es) \<in> set ms"
    and "JObject fs \<in> set es"
    and "(k, JNumber (FracLit q)) \<in> set fs"
    and "k \<in> set int_tags"
  shows "\<exists>err. Unmarshal scan body wo = Inl err"
proof -
  have a: "isl (unmarshal_struct observation_field ob (JObject fs))" for ob
    unfolding unmarshal_struct_def json.case
    by (rule unmarshal_members_fails [OF assms(4)]) (simp add: observation_field_int_frac [OF assms(5)])
  have ne: "es \<noteq> []" using assms(3) by auto
  have "isl (unmarshal_elements (unmarshal_struct observation_field) zero_Observation old es)" for old
    by (rule unmarshal_elements_fails [OF assms(3)]) (rule a)
  then have b: "isl (unmarshal_slice (unmarshal_struct observation_field) zero_Observation old (JArray es))" for old
    using ne by (simp add: unmarshal_slice_def isl_map_sum)
  have c: "isl (weatherObservation_field ''observations'' st (JArray es))" for st
    using b [of "(Observations (fst st), snd st)"]
    by (simp add: weatherObservation_field_def fieldByName_def isl_map_sum)
  have "isl (unmarshal_members weatherObservation_field (wo, []) ms)"
    by (rule unmarshal_members_fails [OF assms(2)]) (rule c)
  then have "isl (Unmarshal scan body wo)"
    by (simp add: Unmarshal_def assms(1) unmarshal_struct_def isl_map_sum)
  then show ?thesis by (cases "Unmarshal scan body wo") simp_all
qed


lemma Unmarshal_observations:
  assumes "scan body = Inr (JObject [(''observations'', JArray [j])])"
    and "unmarshal_struct observation_field zero_Observation j = Inr ob"
  shows "Unmarshal scan body zero_WeatherObservation = Inr \<lparr>Observations = [ob]\<rparr>"
  using assms
  by (simp add: Unmarshal_def unmarshal_struct_def weatherObservation_field_def fieldByName_def
      unmarshal_slice_def zero_WeatherObservation_def)

lemma Unmarshal_float_ok:
  assumes "scan body = Inr (JObject [(''observations'', JArray [JObject [(k, JNumber n)]])])"
    and "k \<in> set float_tags" and "ParseFloat (number_value n) = Some f"
  shows "\<exists>ob. Unmarshal scan body zero_WeatherObservation = Inr \<lparr>Observations = [ob]\<rparr>"
proof -
  obtain ob where "observation_field k zero_Observation (JNumber n) = Inr ob"
    using observation_field_float [OF assms(2,3)] by blast
  then have "unmarshal_struct observation_field zero_Observation (JObject [(k, JNumber n)]) = Inr ob"
    by (simp add: unmarshal_struct_def)
  from Unmarshal_observations [of scan body, OF assms(1) this] show ?thesis by blast
qed

lemma Unmarshal_metric_ok:
  assumes "scan body =
      Inr (JObject [(''observations'', JArray [JObject [(''metric'', JObject [(k, JNumber n)])]])])"
    and "k \<in> set metric_tags" and "ParseFloat (number_value n) = Some f"
  shows "\<exists>ob. Unmarshal scan body zero_WeatherObservation = Inr \<lparr>Observations = [ob]\<rparr>"
proof -
  obtain m where "metric_field k (metric zero_Observation) (JNumber n) = Inr m"
    using metric_field_float [OF assms(2,3)] by blast
  then have "unmarshal_struct metric_field (metric zero_Observation) (JObject [(k, JNumber n)]) = Inr m"
    by (simp add: unmarshal_struct_def)
  moreover have "fieldByName observation_tags ''metric'' = Some ''metric''"
    by (rule fieldByName_exact) (simp add: observation_tags_def)
  ultimately have "observation_field ''metric'' zero_Observation (JObject [(k, JNumber n)]) =
      Inr (zero_Observation\<lparr>metric := m\<rparr>)"
    by (simp add: observation_field_def)
  then have "unmarshal_struct observation_field zero_Observation
      (JObject [(''metric'', JObject [(k, JNumber n)])]) = Inr (zero_Observation\<lparr>metric := m\<rparr>)"
    by (simp add: unmarshal_struct_def)
  from Unmarshal_observations [of scan body, OF assms(1) this] show ?thesis by blast
qed

subsection \<open>fetchWeatherData\<close>

text \<open>What \<open>observation_field\<close> and \<open>metric_field\<close> do at each tag.\<close>

lemma observation_field_stationID:
  "observation_field ''stationID'' ob j =
     map_sum id (\<lambda>x. ob\<lparr>stationID := x\<rparr>) (unmarshal_string (stationID ob) j)"
  by (simp add: observation_field_def fieldByName_def observation_tags_def)

lemma observation_field_obsTimeUtc:
  "observation_field ''obsTimeUtc'' ob j =
     map_sum id (\<lambda>x. ob\<lparr>obsTimeUtc := x\<rparr>) (unmarshal_string (obsTimeUtc ob) j)"
  by (simp add: observation_field_def fieldByName_def observation_tags_def)

lemma observation_field_obsTimeLocal:
  "observation_field ''obsTimeLocal'' ob j =
     map_sum id (\<lambda>x. ob\<lparr>obsTimeLocal := x\<rparr>) (unmarshal_string (obsTimeLocal ob) j)"
  by (simp add: observation_field_def fieldByName_def observation_tags_def)

lemma observation_field_neighborhood:
  "observation_field ''neighborhood'' ob j =
     map_sum id (\<lambda>x. ob\<lparr>neighborhood := x\<rparr>) (unmarshal_string (neighborhood ob) j)"
  by (simp add: observation_field_def fieldByName_def observation_tags_def)

lemma observation_field_softwareType:
  "observation_field ''softwareType'' ob j =
     map_sum id (\<lambda>x. ob\<lparr>softwareType := x\<rparr>) (unmarshal_string (softwareType ob) j)"
  by (simp add: observation_field_def fieldByName_def observation_tags_def)

lemma observation_field_country:
  "observation_field ''country'' ob j =
     map_sum id (\<lambda>x. ob\<lparr>country := x\<rparr>) (unmarshal_string (country ob) j)"
  by (simp add: observation_field_def fieldByName_def observation_tags_def)

lemma observation_field_epoch:
  "observation_field ''epoch'' ob j =
     map_sum id (\<lambda>x. ob\<lparr>epoch := x\<rparr>) (unmarshal_int (epoch ob) j)"
  by (simp add: observation_field_def fieldByName_def observation_tags_def)

lemma observation_field_winddir:
  "observation_field ''winddir'' ob j =
     map_sum id (\<lambda>x. ob\<lparr>winddir := x\<rparr>) (unmarshal_int (winddir ob) j)"
  by (simp add: observation_field_def fieldByName_def observation_tags_def)

lemma observation_field_qcStatus:
  "observation_field ''qcStatus'' ob j =
     map_sum id (\<lambda>x. ob\<lparr>qcStatus := x\<rparr>) (unmarshal_int (qcStatus ob) j)"
  by (simp add: observation_field_def fieldByName_def observation_tags_def)

lemma observation_field_solarRadiation:
  "observation_field ''solarRadiation'' ob j =
     map_sum id (\<lambda>x. ob\<lparr>solarRadiation := x\<rparr>) (unmarshal_float64 (solarRadiation ob) j)"
  by (simp add: observation_field_def fieldByName_def observation_tags_def)

lemma observation_field_lat:
  "observation_field ''lat'' ob j =
     map_sum id (\<lambda>x. ob\<lparr>lat := x\<rparr>) (unmarshal_float64 (lat ob) j)"
  by (simp add: observation_field_def fieldByName_def observation_tags_def)

lemma observation_field_lon:
  "observation_field ''lon'' ob j =
     map_sum id (\<lambda>x. ob\<lparr>lon := x\<rparr>) (unmarshal_float64 (lon ob) j)"
  by (simp add: observation_field_def fieldByName_def observation_tags_def)

lemma observation_field_uv:
  "observation_field ''uv'' ob j =
     map_sum id (\<lambda>x. ob\<lparr>uv := x\<rparr>) (unmarshal_float64 (uv ob) j)"
  by (simp add: observation_field_def fieldByName_def observation_tags_def)

lemma observation_field_humidity:
  "observation_field ''humidity'' ob j =
     map_sum id (\<lambda>x. ob\<lparr>humidity := x\<rparr>) (unmarshal_float64 (humidity ob) j)"
  by (simp add: observation_field_def fieldByName_def observation_tags_def)

lemma observation_field_realtimeFrequency:
  "observation_field ''realtimeFrequency'' ob j = Inr (ob\<lparr>realtimeFrequency := j\<rparr>)"
  by (simp add: observation_field_def fieldByName_def observation_tags_def unmarshal_interface_def)

lemma observation_field_metric:
  "observation_field ''metric'' ob j =
     map_sum id (\<lambda>x. ob\<lparr>metric := x\<rparr>) (unmarshal_struct metric_field (metric ob) j)"
  by (simp add: observation_field_def fieldByName_def observation_tags_def)

lemma metric_field_temp:
  "metric_field ''temp'' m j =
     map_sum id (\<lambda>x. m\<lparr>temp := x\<rparr>) (unmarshal_float64 (temp m) j)"
  by (simp add: metric_field_def fieldByName_def metric_tags_def)

lemma metric_field_heatIndex:
  "metric_field ''heatIndex'' m j =
     map_sum id (\<lambda>x. m\<lparr>heatIndex := x\<rparr>) (unmarshal_float64 (heatIndex m) j)"
  by (simp add: metric_field_def fieldByName_def metric_tags_def)

lemma metric_field_dewpt:
  "metric_field ''dewpt'' m j =
     map_sum id (\<lambda>x. m\<lparr>dewpt := x\<rparr>) (unmarshal_float64 (dewpt m) j)"
  by (simp add: metric_field_def fieldByName_def metric_tags_def)

lemma metric_field_windChill:
  "metric_field ''windChill'' m j =
     map_sum id (\<lambda>x. m\<lparr>windChill := x\<rparr>) (unmarshal_float64 (windChill m) j)"
  by (simp add: metric_field_def fieldByName_def metric_tags_def)

lemma metric_field_windSpeed:
  "metric_field ''windSpeed'' m j =
     map_sum id (\<lambda>x. m\<lparr>windSpeed := x\<rparr>) (unmarshal_float64 (windSpeed m) j)"
  by (simp add: metric_field_def fieldByName_def metric_tags_def)

lemma metric_field_windGust:
  "metric_field ''windGust'' m j =
     map_sum id (\<lambda>x. m\<lparr>windGust := x\<rparr>) (unmarshal_float64 (windGust m) j)"
  by (simp add: metric_field_def fieldByName_def metric_tags_def)

lemma metric_field_pressure:
  "metric_field ''pressure'' m j =
     map_sum id (\<lambda>x. m\<lparr>pressure := x\<rparr>) (unmarshal_float64 (pressure m) j)"
  by (simp add: metric_field_def fieldByName_def metric_tags_def)

lemma metric_field_precipRate:
  "metric_field ''precipRate'' m j =
     map_sum id (\<lambda>x. m\<lparr>precipRate := x\<rparr>) (unmarshal_float64 (precipRate m) j)"
  by (simp add: metric_field_def fieldByName_def metric_tags_def)

lemma metric_field_precipTotal:
  "metric_field ''precipTotal'' m j =
     map_sum id (\<lambda>x. m\<lparr>precipTotal := x\<rparr>) (unmarshal_float64 (precipTotal m) j)"
  by (simp add: metric_field_def fieldByName_def metric_tags_def)

lemma metric_field_elev:
  "metric_field ''elev'' m j =
     map_sum id (\<lambda>x. m\<lparr>elev := x\<rparr>) (unmarshal_float64 (elev m) j)"
  by (simp add: metric_field_def fieldByName_def metric_tags_def)

lemmas field_at_tag =
  observation_field_stationID observation_field_obsTimeUtc observation_field_obsTimeLocal
  observation_field_neighborhood observation_field_softwareType observation_field_country
  observation_field_epoch observation_field_winddir observation_field_qcStatus
  observation_field_solarRadiation observation_field_lat observation_field_lon
  observation_field_uv observation_field_humidity observation_field_realtimeFrequency observation_field_metric
  metric_field_temp metric_field_heatIndex metric_field_dewpt metric_field_windChill
  metric_field_windSpeed metric_field_windGust metric_field_pressure metric_field_precipRate
  metric_field_precipTotal metric_field_elev

lemma Unmarshal_observations_array:
  "Unmarshal (\<lambda>body. Inr (JObject [(''observations'', JArray js)])) body zero_WeatherObservation =
     map_sum id (\<lambda>x. \<lparr>Observations = x\<rparr>)
       (unmarshal_elements (unmarshal_struct observation_field) zero_Observation [] js)"
  by (cases js)
     (simp_all add: Unmarshal_def unmarshal_struct_def weatherObservation_field_def fieldByName_def
       unmarshal_slice_def zero_WeatherObservation_def split: sum.split)

lemma ParseFloat_exact:
  "round_float64 x = x \<Longrightarrow> \<bar>x\<bar> < 2 ^ 1024 \<Longrightarrow> ParseFloat x = Some x"
  by (simp add: ParseFloat_def)

lemma ParseFloat_examples:
  "ParseFloat (221 / 4) = Some (221 / 4)"
  "ParseFloat (43 / 2) = Some (43 / 2)"
  "ParseFloat (4053 / 4) = Some (4053 / 4)"
  "ParseFloat (3 / 2) = Some (3 / 2)"
  "ParseFloat 10 = Some 10"
  by (rule ParseFloat_exact, code_simp, simp)+

lemma decode_entry_A:
  "unmarshal_struct observation_field zero_Observation entry_A = Inr obs_A"
  by (simp add: entry_A_def unmarshal_struct_def field_at_tag unmarshal_string_def
      unmarshal_float64_def unmarshal_int_def ParseInt_def ParseFloat_examples obs_A_def
      zero_Observation_def zero_Metric_def)

lemma Unmarshal_doc_one:
  "Unmarshal (\<lambda>body. Inr doc_one) body zero_WeatherObservation = Inr \<lparr>Observations = [obs_A]\<rparr>"
  by (simp add: doc_one_def Unmarshal_observations_array decode_entry_A)

lemma decode_entry_B:
  "unmarshal_struct observation_field zero_Observation entry_B = Inr obs_B"
  by (simp add: entry_B_def unmarshal_struct_def field_at_tag unmarshal_string_def
      unmarshal_float64_def ParseFloat_examples obs_B_def)

lemma Unmarshal_doc_two:
  "Unmarshal (\<lambda>body. Inr doc_two) body zero_WeatherObservation =
     Inr \<lparr>Observations = [obs_A, obs_B]\<rparr>"
  by (simp add: doc_two_def Unmarshal_observations_array decode_entry_A decode_entry_B)

lemma example_http_get:
  "http_get (example_env r doc rm rs)
     (weatherAPIEndpoint ''KTEST1'' (apiKey (example_env r doc rm rs))) = r"
  by (simp add: example_env_def)

lemma example_json_scan: "json_scan (example_env r doc rm rs) = (\<lambda>body. Inr doc)"
  by (simp add: example_env_def)

text \<open>
  C1 (the code departs from the claim).  A response with status 200 whose body decodes
  to an empty \<^verbatim>\<open>observations\<close> array: \<^verbatim>\<open>fetchWeatherData\<close> indexes the array at 0 and
  panics; it returns no error.
\<close>

theorem fetch_empty_observations_panics:
  "fetchWeatherData (example_env (Response 200 ''empty observations'') doc_empty id id) ''KTEST1'' =
     Panic ''runtime error: index out of range [0] with length 0''"
  by code_simp

text \<open>
  C3.  For a response whose status is not 200, \<^verbatim>\<open>fetchWeatherData\<close> returns no
  observation data (the zero \<^verbatim>\<open>WeatherData\<close>) and an error whose message holds the
  status code, as its decimal numeral, and the text of the body: the numeral reads
  back as the status code, and the message determines both the status code and the
  body.
\<close>

theorem fetch_status_error:
  assumes "http_get e (weatherAPIEndpoint s (apiKey e)) = Response code body"
    and "code \<noteq> 200"
  shows "fetchWeatherData e s =
     Returned (zero_WeatherData,
       Some (ErrorString (''API request failed with status '' @ Sprintf_d code @ '': '' @ body))) \<and>
     decimal_value (Sprintf_d code) = code \<and>
     (\<forall>code' body'.
        ''API request failed with status '' @ Sprintf_d code' @ '': '' @ body' =
        ''API request failed with status '' @ Sprintf_d code @ '': '' @ body
        \<longrightarrow> code' = code \<and> body' = body)"
proof (intro conjI allI impI)
  show "fetchWeatherData e s =
     Returned (zero_WeatherData,
       Some (ErrorString (''API request failed with status '' @ Sprintf_d code @ '': '' @ body)))"
    using assms by (simp add: fetchWeatherData_def)
  show "decimal_value (Sprintf_d code) = code" by (rule decimal_value_Sprintf_d)
next
  fix code' body'
  assume "''API request failed with status '' @ Sprintf_d code' @ '': '' @ body' =
      ''API request failed with status '' @ Sprintf_d code @ '': '' @ body"
  then show "code' = code" and "body' = body"
    using status_message_inject by blast+
qed

theorem fetch_status_error_witness:
  "(404::int) \<noteq> 200 \<and>
   fetchWeatherData (example_env (Response 404 ''station not found'') doc_empty id id) ''KTEST1'' =
     Returned (zero_WeatherData,
       Some (ErrorString ''API request failed with status 404: station not found'')) \<and>
   decimal_value ''404'' = 404"
proof -
  have d: "Sprintf_d 404 = ''404''" by code_simp
  have n: "(404::int) \<noteq> 200" by simp
  from fetch_status_error [OF example_http_get n] show ?thesis by (simp add: d)
qed

text \<open>
  C10.  Each of the four error paths of \<^verbatim>\<open>fetchWeatherData\<close> (the request fails, the
  body cannot be read, the status is not 200, the body does not decode) returns the
  zero \<^verbatim>\<open>WeatherData\<close> with the error; and whenever an error is returned, the
  \<^verbatim>\<open>WeatherData\<close> returned with it is the zero value.
\<close>

theorem fetch_error_zero:
  "(http_get e (weatherAPIEndpoint s (apiKey e)) = GetFailed msg \<longrightarrow>
      fetchWeatherData e s = Returned (zero_WeatherData, Some (GetError msg))) \<and>
   (http_get e (weatherAPIEndpoint s (apiKey e)) = ReadFailed code msg \<longrightarrow>
      fetchWeatherData e s = Returned (zero_WeatherData, Some (ReadAllError msg))) \<and>
   (http_get e (weatherAPIEndpoint s (apiKey e)) = Response code body \<and> code \<noteq> 200 \<longrightarrow>
      (\<exists>err. fetchWeatherData e s = Returned (zero_WeatherData, Some err))) \<and>
   (http_get e (weatherAPIEndpoint s (apiKey e)) = Response 200 body \<and>
      Unmarshal (json_scan e) body zero_WeatherObservation = Inl err \<longrightarrow>
      fetchWeatherData e s = Returned (zero_WeatherData, Some err)) \<and>
   (fetchWeatherData e s = Returned (d, Some err) \<longrightarrow> d = zero_WeatherData)"
  by (auto simp: fetchWeatherData_def split: http_result.splits if_splits sum.splits list.splits)

theorem fetch_error_zero_witness:
  "fetchWeatherData (example_env (Response 200 ''fractional epoch'') doc_fractional_epoch id id)
      ''KTEST1'' =
     Returned (zero_WeatherData, Some (UnmarshalTypeError ''number'' ''int''))"
proof -
  have u: "Unmarshal (json_scan (example_env (Response 200 ''fractional epoch'') doc_fractional_epoch id id))
      ''fractional epoch'' zero_WeatherObservation = Inl (UnmarshalTypeError ''number'' ''int'')"
    unfolding example_json_scan by code_simp
  from fetch_error_zero
    [where e = "example_env (Response 200 ''fractional epoch'') doc_fractional_epoch id id"
       and s = "''KTEST1''" and body = "''fractional epoch''"
       and err = "UnmarshalTypeError ''number'' ''int''"]
    example_http_get u
  show ?thesis by blast
qed

lemma decode_entry_fractional_epoch:
  "unmarshal_struct observation_field ob (JObject [(''epoch'', JNumber (FracLit (3 / 2)))]) =
     Inl (UnmarshalTypeError ''number'' ''int'')"
  by (simp add: unmarshal_struct_def observation_field_epoch unmarshal_int_def)

lemma Unmarshal_doc_later_fractional:
  "Unmarshal (\<lambda>body. Inr doc_later_fractional) body zero_WeatherObservation =
     Inl (UnmarshalTypeError ''number'' ''int'')"
  by (simp add: doc_later_fractional_def Unmarshal_observations_array decode_entry_A
      decode_entry_fractional_epoch)

text \<open>
  C7 as stated fails: the bodies \<open>doc_one\<close> and \<open>doc_later_fractional\<close> have the same
  entry 0 and differ in a later entry only, whose \<^verbatim>\<open>epoch\<close> 1.5 does not decode;
  \<^verbatim>\<open>json.Unmarshal\<close> decodes the whole array before \<^verbatim>\<open>fetchWeatherData\<close> takes entry 0,
  so the first body gives the data of entry 0 and the second the zero \<^verbatim>\<open>WeatherData\<close>
  with the decoder's error.
\<close>

theorem later_entry_changes_result:
  "doc_one = JObject [(''observations'', JArray [entry_A])] \<and>
   doc_later_fractional =
     JObject
      [(''observations'', JArray [entry_A, JObject [(''epoch'', JNumber (FracLit (3 / 2)))]])] \<and>
   fetchWeatherData (example_env (Response 200 ''one entry'') doc_one id id) ''KTEST1'' =
     Returned (weatherData_of ''KTEST1'' obs_A, None) \<and>
   fetchWeatherData (example_env (Response 200 ''later entry fractional'') doc_later_fractional id id)
       ''KTEST1'' =
     Returned (zero_WeatherData, Some (UnmarshalTypeError ''number'' ''int'')) \<and>
   fetchWeatherData (example_env (Response 200 ''one entry'') doc_one id id) ''KTEST1'' \<noteq>
     fetchWeatherData (example_env (Response 200 ''later entry fractional'') doc_later_fractional id id)
       ''KTEST1''"
proof -
  have a: "fetchWeatherData (example_env (Response 200 ''one entry'') doc_one id id) ''KTEST1'' =
      Returned (weatherData_of ''KTEST1'' obs_A, None)"
    using example_http_get [of "Response 200 ''one entry''" doc_one id id]
    by (simp add: fetchWeatherData_def example_json_scan Unmarshal_doc_one)
  have b: "fetchWeatherData (example_env (Response 200 ''later entry fractional'') doc_later_fractional id id)
      ''KTEST1'' = Returned (zero_WeatherData, Some (UnmarshalTypeError ''number'' ''int''))"
    using example_http_get [of "Response 200 ''later entry fractional''" doc_later_fractional id id]
    by (simp add: fetchWeatherData_def example_json_scan Unmarshal_doc_later_fractional)
  show ?thesis
    unfolding a b by (simp add: doc_one_def doc_later_fractional_def)
qed

text \<open>
  C7, amended.  Two responses with status 200 that decode, to non-empty
  \<^verbatim>\<open>observations\<close> arrays with the same first entry, give the same result of
  \<^verbatim>\<open>fetchWeatherData\<close>, whatever their later entries: the data built from that entry.
\<close>

theorem fetch_first_entry_only:
  assumes "http_get e1 (weatherAPIEndpoint s (apiKey e1)) = Response 200 body1"
    and "Unmarshal (json_scan e1) body1 zero_WeatherObservation = Inr wo1"
    and "http_get e2 (weatherAPIEndpoint s (apiKey e2)) = Response 200 body2"
    and "Unmarshal (json_scan e2) body2 zero_WeatherObservation = Inr wo2"
    and "Observations wo1 = obs # rest1"
    and "Observations wo2 = obs # rest2"
  shows "fetchWeatherData e1 s = fetchWeatherData e2 s \<and>
     fetchWeatherData e1 s = Returned (weatherData_of s obs, None)"
  using assms by (simp add: fetchWeatherData_def)

theorem fetch_first_entry_only_witness:
  "fetchWeatherData (example_env (Response 200 ''one entry'') doc_one id id) ''KTEST1'' =
     fetchWeatherData (example_env (Response 200 ''two entries'') doc_two id id) ''KTEST1'' \<and>
   fetchWeatherData (example_env (Response 200 ''one entry'') doc_one id id) ''KTEST1'' =
     Returned (weatherData_of ''KTEST1'' obs_A, None)"
proof -
  have u1: "Unmarshal (json_scan (example_env (Response 200 ''one entry'') doc_one id id))
      ''one entry'' zero_WeatherObservation = Inr \<lparr>Observations = [obs_A]\<rparr>"
    unfolding example_json_scan by (rule Unmarshal_doc_one)
  have u2: "Unmarshal (json_scan (example_env (Response 200 ''two entries'') doc_two id id))
      ''two entries'' zero_WeatherObservation =
      Inr \<lparr>Observations = [obs_A, obs_B]\<rparr>"
    unfolding example_json_scan by (rule Unmarshal_doc_two)
  show ?thesis
    by (rule fetch_first_entry_only [OF example_http_get u1 example_http_get u2]) simp_all
qed

text \<open>
  C6 as stated fails: an entry whose \<^verbatim>\<open>winddir\<close> is the integer 9007199254740993
  decodes, and the value stored under \<open>winddirection\<close> is 9007199254740992, the
  nearest float64.
\<close>

theorem sensors_winddir_rounded:
  "fetchWeatherData (example_env (Response 200 ''large winddir'') doc_large_winddir id id) ''KTEST1'' =
     Returned (weatherData_of ''KTEST1'' obs_large_winddir, None) \<and>
   winddir obs_large_winddir = 9007199254740993 \<and>
   map_of (Sensors (weatherData_of ''KTEST1'' obs_large_winddir)) ''winddirection'' =
     Some 9007199254740992"
  by code_simp

text \<open>
  C6, amended.  For a response that decodes with first entry \<open>obs\<close>, the sensor
  mapping holds, under the eleven fixed keys, ten fields of \<open>obs\<close> as they are and,
  under \<open>winddirection\<close>, the integer field \<^verbatim>\<open>winddir\<close> converted to float64; the
  conversion is exact as long as the integer is at most \<open>2^53\<close> in absolute value.
\<close>

theorem fetch_sensors_verbatim:
  assumes "http_get e (weatherAPIEndpoint s (apiKey e)) = Response 200 body"
    and "Unmarshal (json_scan e) body zero_WeatherObservation = Inr wo"
    and "Observations wo = obs # rest"
  shows "fetchWeatherData e s = Returned (weatherData_of s obs, None) \<and>
     Sensors (weatherData_of s obs) =
       [(''temperature'', temp (metric obs)),
        (''dewpoint'', dewpt (metric obs)),
        (''humidity'', humidity obs),
        (''pressure'', pressure (metric obs)),
        (''windspeed'', windSpeed (metric obs)),
        (''winddirection'', float64_of_int (winddir obs)),
        (''windgust'', windGust (metric obs)),
        (''precipitation_rate'', precipRate (metric obs)),
        (''precipitation_total'', precipTotal (metric obs)),
        (''uv_index'', uv obs),
        (''solar_radiation'', solarRadiation obs)] \<and>
     (\<bar>winddir obs\<bar> \<le> 2 ^ 53 \<longrightarrow> float64_of_int (winddir obs) = of_int (winddir obs))"
  using assms by (simp add: fetchWeatherData_def weatherData_of_def float64_of_int_exact)

theorem fetch_sensors_verbatim_witness:
  "fetchWeatherData (example_env (Response 200 ''one entry'') doc_one id id) ''KTEST1'' =
     Returned (weatherData_of ''KTEST1'' obs_A, None) \<and>
   Sensors (weatherData_of ''KTEST1'' obs_A) =
     [(''temperature'', 43 / 2), (''dewpoint'', 0), (''humidity'', 221 / 4),
      (''pressure'', 4053 / 4), (''windspeed'', 0), (''winddirection'', 270),
      (''windgust'', 0), (''precipitation_rate'', 0), (''precipitation_total'', 0),
      (''uv_index'', 0), (''solar_radiation'', 0)]"
proof -
  have u1: "Unmarshal (json_scan (example_env (Response 200 ''one entry'') doc_one id id))
      ''one entry'' zero_WeatherObservation = Inr \<lparr>Observations = [obs_A]\<rparr>"
    unfolding example_json_scan by (rule Unmarshal_doc_one)
  have w: "\<bar>winddir obs_A\<bar> \<le> 2 ^ 53" by (simp add: obs_A_def)
  have "Observations \<lparr>Observations = [obs_A]\<rparr> = obs_A # []" by simp
  from fetch_sensors_verbatim [OF example_http_get u1 this] w
  show ?thesis by (simp add: obs_A_def zero_Observation_def zero_Metric_def)
qed

text \<open>
  C4 as stated fails: a body whose only entry has the fractional \<^verbatim>\<open>epoch\<close> 1.5 does
  not decode; \<^verbatim>\<open>fetchWeatherData\<close> returns the type error of the decoder.
\<close>

theorem fractional_epoch_not_decoded:
  "Unmarshal (\<lambda>body. Inr doc_fractional_epoch) ''fractional epoch'' zero_WeatherObservation =
     Inl (UnmarshalTypeError ''number'' ''int'')"
  by code_simp

text \<open>
  C4, amended.  The fields \<^verbatim>\<open>epoch\<close>, \<^verbatim>\<open>winddir\<close> and \<^verbatim>\<open>qcStatus\<close> are integers: a body
  in which one of them, in any entry, is a number with a fraction or exponent part
  does not decode, the decoder of the field returning a type error.  Every other
  numeric field is a float64: the decoder of the field accepts a fractional value
  within the range of float64, and a body whose single entry gives one of them such a
  value decodes.
\<close>

theorem decode_numeric_fields:
  "(scan body = Inr (JObject ms) \<and> (''observations'', JArray es) \<in> set ms \<and>
      JObject fs \<in> set es \<and> (k, JNumber (FracLit q)) \<in> set fs \<and> k \<in> set int_tags
      \<longrightarrow> (\<exists>err. Unmarshal scan body zero_WeatherObservation = Inl err)) \<and>
   (k \<in> set int_tags
      \<longrightarrow> observation_field k ob (JNumber (FracLit q)) = Inl (UnmarshalTypeError ''number'' ''int'')) \<and>
   (k \<in> set float_tags \<and> ParseFloat q = Some f
      \<longrightarrow> (\<exists>ob'. observation_field k ob (JNumber (FracLit q)) = Inr ob')) \<and>
   (k \<in> set metric_tags \<and> ParseFloat q = Some f
      \<longrightarrow> (\<exists>m'. metric_field k m (JNumber (FracLit q)) = Inr m')) \<and>
   (scan body = Inr (JObject [(''observations'', JArray [JObject [(k, JNumber (FracLit q))]])]) \<and>
      k \<in> set float_tags \<and> ParseFloat q = Some f
      \<longrightarrow> (\<exists>ob. Unmarshal scan body zero_WeatherObservation = Inr \<lparr>Observations = [ob]\<rparr>)) \<and>
   (scan body =
      Inr (JObject [(''observations'',
             JArray [JObject [(''metric'', JObject [(k, JNumber (FracLit q))])]])]) \<and>
      k \<in> set metric_tags \<and> ParseFloat q = Some f
      \<longrightarrow> (\<exists>ob. Unmarshal scan body zero_WeatherObservation = Inr \<lparr>Observations = [ob]\<rparr>))"
proof (intro conjI impI)
  assume "scan body = Inr (JObject ms) \<and> (''observations'', JArray es) \<in> set ms \<and>
      JObject fs \<in> set es \<and> (k, JNumber (FracLit q)) \<in> set fs \<and> k \<in> set int_tags"
  then show "\<exists>err. Unmarshal scan body zero_WeatherObservation = Inl err"
    using Unmarshal_int_frac_fails by blast
next
  assume "k \<in> set int_tags"
  then show "observation_field k ob (JNumber (FracLit q)) = Inl (UnmarshalTypeError ''number'' ''int'')"
    by (rule observation_field_int_frac)
next
  assume "k \<in> set float_tags \<and> ParseFloat q = Some f"
  then show "\<exists>ob'. observation_field k ob (JNumber (FracLit q)) = Inr ob'"
    using observation_field_float [of k "FracLit q" f ob] by simp
next
  assume "k \<in> set metric_tags \<and> ParseFloat q = Some f"
  then show "\<exists>m'. metric_field k m (JNumber (FracLit q)) = Inr m'"
    using metric_field_float [of k "FracLit q" f m] by simp
next
  assume "scan body = Inr (JObject [(''observations'', JArray [JObject [(k, JNumber (FracLit q))]])]) \<and>
      k \<in> set float_tags \<and> ParseFloat q = Some f"
  then show "\<exists>ob. Unmarshal scan body zero_WeatherObservation = Inr \<lparr>Observations = [ob]\<rparr>"
    using Unmarshal_float_ok [of scan body k "FracLit q" f] by simp
next
  assume "scan body =
      Inr (JObject [(''observations'',
             JArray [JObject [(''metric'', JObject [(k, JNumber (FracLit q))])]])]) \<and>
      k \<in> set metric_tags \<and> ParseFloat q = Some f"
  then show "\<exists>ob. Unmarshal scan body zero_WeatherObservation = Inr \<lparr>Observations = [ob]\<rparr>"
    using Unmarshal_metric_ok [of scan body k "FracLit q" f] by simp
qed

theorem decode_numeric_fields_witness:
  "(\<exists>err. Unmarshal (\<lambda>body. Inr doc_fractional_epoch) ''b'' zero_WeatherObservation = Inl err) \<and>
   (\<exists>ob. Unmarshal (\<lambda>body. Inr doc_fractional_lat) ''b'' zero_WeatherObservation =
      Inr \<lparr>Observations = [ob]\<rparr>)"
proof -
  have p: "ParseFloat (3 / 2) = Some (3 / 2)" by (rule ParseFloat_examples)
  have i: "''epoch'' \<in> set int_tags" by (simp add: int_tags_def)
  have f: "''lat'' \<in> set float_tags" by (simp add: float_tags_def)
  have a: "\<exists>err. Unmarshal (\<lambda>body. Inr doc_fractional_epoch) ''b'' zero_WeatherObservation = Inl err"
    using decode_numeric_fields
      [where scan = "\<lambda>body. Inr doc_fractional_epoch" and body = "''b''"
         and ms = "[(''observations'', JArray [JObject [(''epoch'', JNumber (FracLit (3 / 2)))]])]"
         and es = "[JObject [(''epoch'', JNumber (FracLit (3 / 2)))]]"
         and fs = "[(''epoch'', JNumber (FracLit (3 / 2)))]" and k = "''epoch''" and q = "3 / 2"] i
    by (simp add: doc_fractional_epoch_def)
  have b: "\<exists>ob. Unmarshal (\<lambda>body. Inr doc_fractional_lat) ''b'' zero_WeatherObservation =
      Inr \<lparr>Observations = [ob]\<rparr>"
    using decode_numeric_fields
      [where scan = "\<lambda>body. Inr doc_fractional_lat" and body = "''b''" and k = "''lat''"
         and q = "3 / 2" and f = "3 / 2"] f p
    by (simp add: doc_fractional_lat_def)
  from a b show ?thesis by blast
qed

subsection \<open>The metric table\<close>

lemma table_keys:
  "map fst weatherMetricsLiteral =
     [''temperature'', ''dewpoint'', ''humidity'', ''pressure'', ''windspeed'', ''winddirection'',
      ''windgust'', ''precipitation_rate'', ''precipitation_total'', ''uv_index'',
      ''solar_radiation'', ''epoch'', ''visibility'', ''soil_temperature'', ''soil_moisture'',
      ''windchill'', ''elevation'', ''latitude'', ''longitude'']"
  by (simp add: weatherMetricsLiteral_def Let_def)

lemma table_names:
  "map (\<lambda>kv. Name (gaugeOpts (snd kv))) weatherMetricsLiteral =
     [''wunderground_temp'', ''wunderground_dewpt'', ''wunderground_humidity'',
      ''wunderground_pressure'', ''wunderground_windSpeed'', ''wunderground_windDir'',
      ''wunderground_windGust'', ''wunderground_precipRate'', ''wunderground_precipTotal'',
      ''wunderground_uv'', ''wunderground_solarRadiation'', ''wunderground_epoch'',
      ''wunderground_visibility'', ''wunderground_soilTemp'', ''wunderground_soilMoisture'',
      ''wunderground_windChill'', ''wunderground_elevation'', ''wunderground_latitude'',
      ''wunderground_longitude'']"
  by (simp add: weatherMetricsLiteral_def Let_def NewGaugeVec_def)

lemma table_length: "length weatherMetricsLiteral = 19"
  using arg_cong [OF table_keys, of length] by simp

lemma table_keys_distinct: "distinct (map fst weatherMetricsLiteral)"
  unfolding table_keys by simp

lemma table_names_distinct: "distinct (map (\<lambda>kv. Name (gaugeOpts (snd kv))) weatherMetricsLiteral)"
  unfolding table_names by simp

lemma table_fresh:
  "g \<in> set (map snd weatherMetricsLiteral) \<Longrightarrow> labelNames g = labels4 \<and> children g = []"
  by (auto simp: weatherMetricsLiteral_def Let_def NewGaugeVec_def labels4_def)

lemma sort_labels: "sort_key fst (zip labels4 [a, b, c, d]) = [(''country'', d), (''neighborhood'', b), (''softwareType'', c), (''stationID'', a)]"
  by (simp add: labels4_def)

subsection \<open>The population loop, registration and Gather\<close>

lemma loadable_D:
  "loadable wm h \<Longrightarrow> map_of wm k = Some a \<Longrightarrow> a < length h \<and> length (labelNames (h ! a)) = 4"
  by (fastforce simp: loadable_def list_all_iff dest: map_of_SomeD)

lemma loadable_set_sensor:
  assumes "loadable wm h"
  shows "loadable wm (set_sensor wm lvs kv h)"
proof (cases "map_of wm (fst kv)")
  case None
  with assms show ?thesis by (simp add: set_sensor_def)
next
  case (Some a)
  have "length (labelNames (h[a := (h ! a)\<lparr>children := cs\<rparr>] ! b)) = length (labelNames (h ! b))"
    if "b < length h" for b cs
    using that by (cases "a = b") simp_all
  with assms show ?thesis
    by (simp add: set_sensor_def Some loadable_def list_all_iff)
qed

lemma WithLabelValues_Set_ok:
  assumes "loadable wm h" and "map_of wm k = Some a" and "length lvs = 4" and "list_all valid lvs"
  shows "WithLabelValues_Set valid h a lvs v = Returned (set_sensor wm lvs (k, v) h)"
  using loadable_D [OF assms(1,2)] assms(2-)
  by (simp add: WithLabelValues_Set_def load_def set_sensor_def)

lemma WithLabelValues_Set_invalid:
  assumes "loadable wm h" and "map_of wm k = Some a" and "\<not> list_all valid lvs"
  shows "WithLabelValues_Set valid h a lvs v = Panic ''inconsistent label cardinality or invalid label value''"
  using loadable_D [OF assms(1,2)] assms(3)
  by (simp add: WithLabelValues_Set_def load_def)

lemma populate_fold:
  assumes "list_all (valid_label e) [s, Neighborhood d, SoftwareType d, Country d]"
    and "loadable wm h"
  shows "populate e wm s d h xs =
     Returned (fold (set_sensor wm [s, Neighborhood d, SoftwareType d, Country d]) xs h)"
  using assms(2)
proof (induction xs arbitrary: h)
  case Nil
  then show ?case by simp
next
  case (Cons x xs)
  obtain k v where x: "x = (k, v)" by (cases x)
  show ?case
  proof (cases "map_of wm k")
    case None
    with Cons show ?thesis by (simp add: x set_sensor_def)
  next
    case (Some a)
    have "WithLabelValues_Set (valid_label e) h a [s, Neighborhood d, SoftwareType d, Country d] v =
        Returned (set_sensor wm [s, Neighborhood d, SoftwareType d, Country d] (k, v) h)"
      by (rule WithLabelValues_Set_ok [OF Cons.prems Some _ assms(1)]) simp
    with Cons.IH [OF loadable_set_sensor [OF Cons.prems]] Some show ?thesis
      by (simp add: x)
  qed
qed

lemma populate_invalid:
  assumes "\<not> list_all (valid_label e) [s, Neighborhood d, SoftwareType d, Country d]"
    and "loadable wm h"
  shows "populate e wm s d h xs =
     (if list_ex (\<lambda>kv. map_of wm (fst kv) \<noteq> None) xs
      then Panic ''inconsistent label cardinality or invalid label value''
      else Returned h)"
proof (induction xs)
  case Nil
  then show ?case by simp
next
  case (Cons x xs)
  obtain k v where x: "x = (k, v)" by (cases x)
  show ?case
  proof (cases "map_of wm k")
    case None
    with Cons show ?thesis by (simp add: x)
  next
    case (Some a)
    with WithLabelValues_Set_invalid [OF assms(2) Some assms(1)] show ?thesis
      by (simp add: x)
  qed
qed

lemma set_sensor_commute:
  assumes "distinct (map snd wm)" and "fst x \<noteq> fst y"
  shows "set_sensor wm lvs x \<circ> set_sensor wm lvs y = set_sensor wm lvs y \<circ> set_sensor wm lvs x"
proof (rule ext)
  fix h
  have inj: "map_of wm k1 = Some a \<Longrightarrow> map_of wm k2 = Some a \<Longrightarrow> k1 = k2" for k1 k2 a
  proof -
    assume "map_of wm k1 = Some a" "map_of wm k2 = Some a"
    then have "(k1, a) \<in> set wm" "(k2, a) \<in> set wm" by (auto dest: map_of_SomeD)
    with assms(1) show "k1 = k2"
      by (metis distinct_map inj_onD prod.inject snd_conv)
  qed
  show "(set_sensor wm lvs x \<circ> set_sensor wm lvs y) h = (set_sensor wm lvs y \<circ> set_sensor wm lvs x) h"
  proof (cases "map_of wm (fst x)")
    case None
    then show ?thesis by (simp add: set_sensor_def)
  next
    case Sx: (Some a)
    show ?thesis
    proof (cases "map_of wm (fst y)")
      case None
      then show ?thesis by (simp add: set_sensor_def)
    next
      case Sy: (Some b)
      from inj [OF Sx] Sy assms(2) have "a \<noteq> b" by auto
      then show ?thesis
        by (simp add: set_sensor_def Sx Sy list_update_swap [of a b])
    qed
  qed
qed

lemma fold_set_sensor_perm:
  assumes "distinct (map snd wm)" and "distinct (map fst xs)" and "mset xs = mset ys"
  shows "fold (set_sensor wm lvs) xs h = fold (set_sensor wm lvs) ys h"
proof -
  have "set_sensor wm lvs x \<circ> set_sensor wm lvs y = set_sensor wm lvs y \<circ> set_sensor wm lvs x"
    if "x \<in> set xs" "y \<in> set xs" for x y
  proof (cases "x = y")
    case True
    then show ?thesis by simp
  next
    case False
    with that assms(2) have "fst x \<noteq> fst y"
      by (metis distinct_map inj_onD)
    then show ?thesis by (rule set_sensor_commute [OF assms(1)])
  qed
  from fold_multiset_equiv [of xs "set_sensor wm lvs" ys, OF this assms(3)] show ?thesis by simp
qed

lemma map_filter_load:
  "\<forall>a\<in>set reg. a < length h \<Longrightarrow> List.map_filter (load h) reg = map ((!) h) reg"
  by (induction reg) (simp_all add: List.map_filter_simps load_def)

lemma register_all_ok:
  assumes "\<forall>a\<in>set (reg @ as). a < length h"
    and "distinct (map (\<lambda>a. Name (gaugeOpts (h ! a))) (reg @ as))"
  shows "register_all h reg as = Returned (reg @ as)"
  using assms
proof (induction as arbitrary: reg)
  case Nil
  then show ?case by simp
next
  case (Cons a as)
  have r: "\<forall>b\<in>set reg. b < length h" and a: "a < length h" using Cons.prems(1) by auto
  have "Name (gaugeOpts (h ! a)) \<notin> (\<lambda>a. Name (gaugeOpts (h ! a))) ` set reg"
    using Cons.prems(2) by auto
  then have "MustRegister h reg a = Returned (reg @ [a])"
    using a by (auto simp: MustRegister_def load_def map_filter_load [OF r])
  moreover have "register_all h (reg @ [a]) as = Returned ((reg @ [a]) @ as)"
    by (rule Cons.IH) (use Cons.prems in auto)
  ultimately show ?case by simp
qed

lemma Gather_perm:
  assumes "mset reg = mset reg'" and "\<forall>a\<in>set reg. a < length h"
    and "distinct (map (\<lambda>a. Name (gaugeOpts (h ! a))) reg)"
  shows "Gather h reg = Gather h reg'"
proof -
  have s: "set reg' = set reg" using assms(1) by (metis mset_eq_setD)
  then have r': "\<forall>a\<in>set reg'. a < length h" using assms(2) by simp
  let ?F = "\<lambda>r. map family_of (filter (\<lambda>g. children g \<noteq> []) (map ((!) h) r))"
  have m: "mset (?F reg) = mset (?F reg')"
    by (simp only: mset_map mset_filter assms(1))
  have inj: "inj_on familyName (set (?F reg))"
  proof (rule inj_onI)
    fix f1 f2
    assume f1: "f1 \<in> set (?F reg)" and f2: "f2 \<in> set (?F reg)" and eq: "familyName f1 = familyName f2"
    from f1 obtain a1 where a1: "a1 \<in> set reg" "f1 = family_of (h ! a1)" by auto
    from f2 obtain a2 where a2: "a2 \<in> set reg" "f2 = family_of (h ! a2)" by auto
    from eq a1 a2 have "Name (gaugeOpts (h ! a1)) = Name (gaugeOpts (h ! a2))"
      by (simp add: family_of_def)
    with assms(3) a1(1) a2(1) have "a1 = a2"
      by (metis (mono_tags, lifting) distinct_map inj_onD)
    with a1 a2 show "f1 = f2" by simp
  qed
  have m': "mset (?F reg) = mset (sort_key familyName (?F reg'))"
    using m by (simp only: mset_sort)
  have "sort_key familyName (?F reg) = sort_key familyName (?F reg')"
    by (rule sort_key_inj_key_eq [OF m' inj]) (rule sorted_sort_key)
  then show ?thesis
    by (simp add: Gather_def map_filter_load [OF assms(2)] map_filter_load [OF r'])
qed

subsection \<open>What the handler renders\<close>

lemma gather_populated:
  "Gather (fold (set_sensor (fst (newWeatherMetrics [])) [s, neighborhood obs, softwareType obs, country obs])
       (Sensors (weatherData_of s obs)) (snd (newWeatherMetrics []))) [0..<19] = rendered s obs"
  by (simp add: newWeatherMetrics_def new_all_def weatherMetricsLiteral_def Let_def NewGaugeVec_def
      weatherData_of_def set_sensor_def Gather_def load_def family_of_def sample_of_def rendered_def
      sample_for_def upt_rec List.map_filter_simps)

lemma new_heap: "snd (newWeatherMetrics []) = map snd weatherMetricsLiteral"
  by (simp add: newWeatherMetrics_def new_all_def)

lemma new_map: "fst (newWeatherMetrics []) = zip (map fst weatherMetricsLiteral) [0..<19]"
  by (simp add: newWeatherMetrics_def new_all_def table_length)

lemma new_map_snd: "map snd (fst (newWeatherMetrics [])) = [0..<19]"
  by (simp add: new_map table_length)

lemma new_heap_length: "length (snd (newWeatherMetrics [])) = 19"
  by (simp add: new_heap table_length)

lemma new_heap_names:
  "map (\<lambda>a. Name (gaugeOpts (snd (newWeatherMetrics []) ! a))) [0..<19] =
     map (\<lambda>kv. Name (gaugeOpts (snd kv))) weatherMetricsLiteral"
  by (rule nth_equalityI) (simp_all add: new_heap table_length)

lemma new_loadable: "loadable (fst (newWeatherMetrics [])) (snd (newWeatherMetrics []))"
proof -
  have "snd ka < 19 \<and> length (labelNames (snd (weatherMetricsLiteral ! snd ka))) = 4"
    if "ka \<in> set (zip (map fst weatherMetricsLiteral) [0..<19])" for ka
  proof -
    from that have "snd ka \<in> set [0..<19]" by (metis in_set_zipE prod.collapse)
    then have lt: "snd ka < 19" by simp
    then have "weatherMetricsLiteral ! snd ka \<in> set weatherMetricsLiteral"
      by (intro nth_mem) (simp add: table_length)
    then have "snd (weatherMetricsLiteral ! snd ka) \<in> set (map snd weatherMetricsLiteral)"
      by simp
    from table_fresh [OF this] lt show ?thesis by (simp add: labels4_def)
  qed
  then show ?thesis by (simp add: loadable_def list_all_iff new_map new_heap table_length)
qed

lemma set_sensor_length: "length (set_sensor wm lvs kv h) = length h"
  by (simp add: set_sensor_def split: option.splits)

lemma set_sensor_opts: "gaugeOpts (set_sensor wm lvs kv h ! a) = gaugeOpts (h ! a)"
proof (cases "map_of wm (fst kv)")
  case None
  then show ?thesis by (simp add: set_sensor_def)
next
  case (Some b)
  show ?thesis
  proof (cases "b < length h")
    case True
    then show ?thesis by (cases "a = b") (simp_all add: set_sensor_def Some)
  next
    case False
    then show ?thesis by (simp add: set_sensor_def Some list_update_beyond)
  qed
qed

lemma fold_set_sensor_length: "length (fold (set_sensor wm lvs) xs h) = length h"
  by (induction xs arbitrary: h) (simp_all add: set_sensor_length)

lemma fold_set_sensor_opts: "gaugeOpts (fold (set_sensor wm lvs) xs h ! a) = gaugeOpts (h ! a)"
  by (induction xs arbitrary: h) (simp_all add: set_sensor_opts)

lemma sensors_keys:
  "map fst (Sensors (weatherData_of s obs)) =
     [''temperature'', ''dewpoint'', ''humidity'', ''pressure'', ''windspeed'', ''winddirection'',
      ''windgust'', ''precipitation_rate'', ''precipitation_total'', ''uv_index'',
      ''solar_radiation'']"
  by (simp add: weatherData_of_def)

lemma weatherData_of_labels:
  "Neighborhood (weatherData_of s obs) = neighborhood obs"
  "SoftwareType (weatherData_of s obs) = softwareType obs"
  "Country (weatherData_of s obs) = country obs"
  by (simp_all add: weatherData_of_def)

lemma registered:
  assumes "range_permutes e"
  shows "register_all (snd (newWeatherMetrics [])) [] (map snd (range_metrics e (fst (newWeatherMetrics [])))) =
      Returned (map snd (range_metrics e (fst (newWeatherMetrics []))))"
    and "mset (map snd (range_metrics e (fst (newWeatherMetrics [])))) = mset [0..<19]"
proof -
  let ?wm = "fst (newWeatherMetrics [])" and ?h = "snd (newWeatherMetrics [])"
  let ?reg = "map snd (range_metrics e ?wm)"
  have "mset (range_metrics e ?wm) = mset ?wm" using assms by (simp add: range_permutes_def)
  then have "mset ?reg = mset (map snd ?wm)" by (simp only: mset_map)
  then show m: "mset ?reg = mset [0..<19]" by (simp only: new_map_snd)
  then have s: "set ?reg = set [0..<19]" by (rule mset_eq_setD)
  have "mset (map (\<lambda>a. Name (gaugeOpts (?h ! a))) ?reg) =
      mset (map (\<lambda>a. Name (gaugeOpts (?h ! a))) [0..<19])"
    using m by (simp only: mset_map)
  moreover have "distinct (map (\<lambda>a. Name (gaugeOpts (?h ! a))) [0..<19])"
    unfolding new_heap_names by (rule table_names_distinct)
  ultimately have d: "distinct (map (\<lambda>a. Name (gaugeOpts (?h ! a))) ?reg)"
    by (metis mset_eq_imp_distinct_iff)
  have b: "\<forall>a\<in>set ([] @ ?reg). a < length ?h"
    unfolding append_Nil s new_heap_length by simp
  have d': "distinct (map (\<lambda>a. Name (gaugeOpts (?h ! a))) ([] @ ?reg))"
    unfolding append_Nil by (rule d)
  from register_all_ok [OF b d'] show "register_all ?h [] ?reg = Returned ?reg"
    unfolding append_Nil .
qed

lemma render_rendered:
  assumes "range_permutes e"
    and "list_all (valid_label e) [s, neighborhood obs, softwareType obs, country obs]"
  shows "render e s (weatherData_of s obs) = Returned (rendered s obs)"
proof -
  let ?wm = "fst (newWeatherMetrics [])" and ?h = "snd (newWeatherMetrics [])"
  let ?reg = "map snd (range_metrics e ?wm)"
  let ?d = "weatherData_of s obs"
  let ?lvs = "[s, neighborhood obs, softwareType obs, country obs]"
  let ?xs = "range_sensors e (Sensors ?d)"
  let ?h1 = "fold (set_sensor ?wm ?lvs) (Sensors ?d) ?h"
  have xs: "mset (Sensors ?d) = mset ?xs" using assms(1) by (simp add: range_permutes_def)
  have "populate e ?wm s ?d ?h ?xs = Returned (fold (set_sensor ?wm ?lvs) ?xs ?h)"
    using populate_fold [of e s ?d ?wm ?h ?xs] assms(2) new_loadable
    by (simp add: weatherData_of_labels)
  also have "fold (set_sensor ?wm ?lvs) ?xs ?h = ?h1"
    by (rule fold_set_sensor_perm [symmetric, OF _ _ xs])
       (simp_all add: new_map_snd sensors_keys)
  finally have pop: "populate e ?wm s ?d ?h ?xs = Returned ?h1" .
  have g: "Gather ?h1 ?reg = Gather ?h1 [0..<19]"
  proof (rule Gather_perm [symmetric])
    show "mset [0..<19] = mset ?reg" using registered(2) [OF assms(1)] by simp
    show "\<forall>a\<in>set [0..<19]. a < length ?h1"
      by (simp add: fold_set_sensor_length new_heap_length)
    show "distinct (map (\<lambda>a. Name (gaugeOpts (?h1 ! a))) [0..<19])"
      by (simp only: fold_set_sensor_opts new_heap_names table_names_distinct)
  qed
  have "render e s ?d = Returned (Gather ?h1 ?reg)"
    using registered(1) [OF assms(1)] pop by (simp add: render_def case_prod_beta)
  then show ?thesis by (simp only: g gather_populated)
qed

lemma render_invalid:
  assumes "range_permutes e"
    and "\<not> list_all (valid_label e) [s, neighborhood obs, softwareType obs, country obs]"
  shows "render e s (weatherData_of s obs) =
     Panic ''inconsistent label cardinality or invalid label value''"
proof -
  let ?wm = "fst (newWeatherMetrics [])" and ?h = "snd (newWeatherMetrics [])"
  let ?d = "weatherData_of s obs"
  let ?xs = "range_sensors e (Sensors ?d)"
  have "mset ?xs = mset (Sensors ?d)" using assms(1) by (simp add: range_permutes_def)
  then have "set ?xs = set (Sensors ?d)" by (rule mset_eq_setD)
  moreover have "(''temperature'', temp (metric obs)) \<in> set (Sensors ?d)"
    by (simp add: weatherData_of_def)
  moreover have "map_of ?wm ''temperature'' \<noteq> None"
    by (simp add: new_map table_keys upt_rec)
  ultimately have "list_ex (\<lambda>kv. map_of ?wm (fst kv) \<noteq> None) ?xs"
    unfolding list_ex_iff by force
  with populate_invalid [of e s ?d ?wm ?h ?xs] assms(2) new_loadable
  have "populate e ?wm s ?d ?h ?xs = Panic ''inconsistent label cardinality or invalid label value''"
    by (simp add: weatherData_of_labels)
  with registered(1) [OF assms(1)] show ?thesis
    by (simp add: render_def case_prod_beta)
qed

lemma fetch_success_shape:
  "fetchWeatherData e s = Returned (d, None) \<Longrightarrow> \<exists>obs. d = weatherData_of s obs"
  by (auto simp: fetchWeatherData_def split: http_result.splits if_splits sum.splits list.splits)

lemma set_child_keys: "c \<in> set (set_child lvs v cs) \<Longrightarrow> fst c = lvs \<or> c \<in> set cs"
  by (induction cs) (auto split: if_splits)

lemma labelled_new: "labelled lvs (snd (newWeatherMetrics []))"
  using table_fresh by (simp add: labelled_def list_all_iff new_heap)

lemma WithLabelValues_Set_labelled:
  assumes "WithLabelValues_Set valid h a lvs v = Returned h'" and "labelled lvs h"
  shows "labelled lvs h'"
proof -
  from assms(1) obtain g where g: "load h a = Some g"
    and h': "h' = h[a := g\<lparr>children := set_child lvs v (children g)\<rparr>]"
    by (auto simp: WithLabelValues_Set_def split: option.splits if_splits)
  from g have gh: "g \<in> set h" by (auto simp: load_def split: if_splits)
  have "labelNames x = labels4 \<and> (\<forall>c\<in>set (children x). fst c = lvs)" if "x \<in> set h'" for x
  proof -
    from that h' have "x = g\<lparr>children := set_child lvs v (children g)\<rparr> \<or> x \<in> set h"
      using set_update_subset_insert [of h a] by auto
    then show ?thesis
    proof
      assume x: "x = g\<lparr>children := set_child lvs v (children g)\<rparr>"
      from gh assms(2) have "labelNames g = labels4" "\<forall>c\<in>set (children g). fst c = lvs"
        by (auto simp: labelled_def list_all_iff)
      then show ?thesis using set_child_keys [of _ lvs v "children g"] by (auto simp: x)
    next
      assume "x \<in> set h"
      with assms(2) show ?thesis by (auto simp: labelled_def list_all_iff)
    qed
  qed
  then show ?thesis by (simp add: labelled_def list_all_iff)
qed

lemma populate_labelled:
  assumes "populate e wm s d h xs = Returned h'"
    and "labelled [s, Neighborhood d, SoftwareType d, Country d] h"
  shows "labelled [s, Neighborhood d, SoftwareType d, Country d] h'"
  using assms
proof (induction xs arbitrary: h)
  case Nil
  then show ?case by simp
next
  case (Cons x xs)
  obtain k v where x: "x = (k, v)" by (cases x)
  show ?case
  proof (cases "map_of wm k")
    case None
    with Cons show ?thesis by (simp add: x)
  next
    case (Some a)
    with Cons.prems(1) obtain h1 where
      w: "WithLabelValues_Set (valid_label e) h a [s, Neighborhood d, SoftwareType d, Country d] v = Returned h1"
      and p: "populate e wm s d h1 xs = Returned h'"
      by (auto simp: x split: outcome.splits)
    from Cons.IH [OF p WithLabelValues_Set_labelled [OF w Cons.prems(2)]] show ?thesis .
  qed
qed

lemma Gather_sample:
  assumes "f \<in> set (Gather h reg)" and "m \<in> set (familyMetric f)"
  shows "\<exists>g\<in>set h. \<exists>c\<in>set (children g). m = sample_of g c"
proof -
  from assms(1) obtain a g where "a \<in> set reg" "load h a = Some g" and f: "f = family_of g"
    by (auto simp: Gather_def List.map_filter_def)
  then have "g \<in> set h" by (auto simp: load_def split: if_splits)
  moreover from assms(2) f have "m \<in> sample_of g ` set (children g)"
    by (simp add: family_of_def)
  ultimately show ?thesis by auto
qed

lemma render_station_label:
  assumes "render e s d = Returned fams" and "f \<in> set fams" and "m \<in> set (familyMetric f)"
  shows "map_of (Label m) ''stationID'' = Some s"
proof -
  let ?wm = "fst (newWeatherMetrics [])" and ?h = "snd (newWeatherMetrics [])"
  let ?lvs = "[s, Neighborhood d, SoftwareType d, Country d]"
  from assms(1) obtain reg h' where
    p: "populate e ?wm s d ?h (range_sensors e (Sensors d)) = Returned h'"
    and fams: "fams = Gather h' reg"
    by (auto simp: render_def case_prod_beta split: outcome.splits)
  from populate_labelled [OF p labelled_new] have l: "labelled ?lvs h'" .
  from Gather_sample [OF assms(2) [unfolded fams] assms(3)]
  obtain g c where "g \<in> set h'" "c \<in> set (children g)" and m: "m = sample_of g c" by blast
  with l have "labelNames g = labels4" "fst c = ?lvs"
    by (auto simp: labelled_def list_all_iff)
  then show ?thesis by (simp add: m sample_of_def sort_labels)
qed

lemma populate_skips:
  "populate e wm s d h xs = populate e wm s d h (filter (\<lambda>kv. map_of wm (fst kv) \<noteq> None) xs)"
proof (induction xs arbitrary: h)
  case Nil
  then show ?case by simp
next
  case (Cons x xs)
  obtain k v where x: "x = (k, v)" by (cases x)
  show ?case
  proof (cases "map_of wm k")
    case None
    with Cons show ?thesis by (simp add: x)
  next
    case (Some a)
    with Cons show ?thesis by (auto simp: x split: outcome.splits)
  qed
qed

lemma scrape_rendered:
  assumes "s \<noteq> []" and "range_permutes e"
    and "http_get e (weatherAPIEndpoint s (apiKey e)) = Response 200 body"
    and "Unmarshal (json_scan e) body zero_WeatherObservation = Inr wo"
    and "Observations wo = obs # rest"
    and "list_all (valid_label e) [s, neighborhood obs, softwareType obs, country obs]"
  shows "scrape e s = Returned (Status200 (rendered s obs))"
proof -
  have "fetchWeatherData e s = Returned (weatherData_of s obs, None)"
    using assms(3-5) by (simp add: fetchWeatherData_def)
  with render_rendered [OF assms(2,6)] assms(1) show ?thesis by (simp add: scrape_def)
qed

lemma render_deterministic:
  assumes "range_permutes e1" and "range_permutes e2" and "valid_label e2 = valid_label e1"
  shows "render e1 s (weatherData_of s obs) = render e2 s (weatherData_of s obs)"
proof (cases "list_all (valid_label e1) [s, neighborhood obs, softwareType obs, country obs]")
  case True
  with render_rendered [OF assms(1)] render_rendered [OF assms(2)] assms(3) show ?thesis by simp
next
  case False
  with render_invalid [OF assms(1)] render_invalid [OF assms(2)] assms(3) show ?thesis by simp
qed

lemma example_valid_label: "valid_label (example_env r doc rm rs) = (\<lambda>v. True)"
  by (simp add: example_env_def)

lemma example_range_permutes:
  "range_permutes (example_env r doc rev rev)" "range_permutes (example_env r doc id id)"
  by (simp_all add: range_permutes_def example_env_def)

lemma example_scrape:
  "scrape (example_env (Response 200 ''one entry'') doc_one rev rev) ''KTEST1'' =
     Returned (Status200 (rendered ''KTEST1'' obs_A))"
proof (rule scrape_rendered)
  show "''KTEST1'' \<noteq> []" by simp
  show "range_permutes (example_env (Response 200 ''one entry'') doc_one rev rev)"
    by (rule example_range_permutes)
  show "http_get (example_env (Response 200 ''one entry'') doc_one rev rev)
      (weatherAPIEndpoint ''KTEST1'' (apiKey (example_env (Response 200 ''one entry'') doc_one rev rev))) =
      Response 200 ''one entry''"
    by (rule example_http_get)
  show "Unmarshal (json_scan (example_env (Response 200 ''one entry'') doc_one rev rev))
      ''one entry'' zero_WeatherObservation = Inr \<lparr>Observations = [obs_A]\<rparr>"
    unfolding example_json_scan by (rule Unmarshal_doc_one)
  show "Observations \<lparr>Observations = [obs_A]\<rparr> = obs_A # []" by simp
  show "list_all (valid_label (example_env (Response 200 ''one entry'') doc_one rev rev))
      [''KTEST1'', neighborhood obs_A, softwareType obs_A, country obs_A]"
    by (simp add: example_valid_label)
qed

subsection \<open>The handler of /scrape\<close>

text \<open>
  C2.  In every answer with status 200 to a scrape of station \<open>s\<close>, every sample of
  every family carries \<open>s\<close> as the value of its label \<open>stationID\<close>, whatever station
  identifier the upstream observation reports.
\<close>

theorem scrape_station_label:
  assumes "scrape e s = Returned (Status200 fams)"
  shows "\<forall>f\<in>set fams. \<forall>m\<in>set (familyMetric f). map_of (Label m) ''stationID'' = Some s"
proof -
  from assms obtain d where "render e s d = Returned fams"
    by (auto simp: scrape_def split: if_splits outcome.splits prod.splits option.splits)
  then show ?thesis using render_station_label by blast
qed

theorem scrape_station_label_witness:
  "stationID obs_A = ''OTHER'' \<and>
   scrape (example_env (Response 200 ''one entry'') doc_one rev rev) ''KTEST1'' =
     Returned (Status200 (rendered ''KTEST1'' obs_A)) \<and>
   list_all (\<lambda>f. list_all (\<lambda>m. map_of (Label m) ''stationID'' = Some ''KTEST1'') (familyMetric f))
     (rendered ''KTEST1'' obs_A)"
  using scrape_station_label [OF example_scrape] example_scrape
  by (simp add: list_all_iff obs_A_def zero_Observation_def)

text \<open>
  C5 as stated fails: the table of \<^verbatim>\<open>newWeatherMetrics\<close> has 19 keys, not 18; \<open>epoch\<close>
  is one of them.
\<close>

theorem table_has_19_keys:
  "card (set (map fst (fst (newWeatherMetrics [])))) = 19 \<and>
   card (set (map fst (fst (newWeatherMetrics [])))) \<noteq> 18 \<and>
   ''epoch'' \<in> set (map fst (fst (newWeatherMetrics [])))"
proof -
  have "card (set (map fst (fst (newWeatherMetrics [])))) = length (map fst (fst (newWeatherMetrics [])))"
    by (rule distinct_card) (simp add: new_map table_length table_keys_distinct)
  moreover have "map fst (fst (newWeatherMetrics [])) = map fst weatherMetricsLiteral"
    by (simp add: new_map table_length)
  ultimately show ?thesis by (simp add: table_length table_keys)
qed

text \<open>
  C5, amended.  The metric table constructed per request defines exactly 19 sensor
  keys.  In an answer with status 200 exactly the eleven gauges of the keys of the sensor
  mapping have a family, with one sample each; the eight gauges that are registered
  but never set contribute no family and no sample.
\<close>

theorem metric_table_population:
  "length (fst (newWeatherMetrics [])) = 19 \<and>
   distinct (map fst (fst (newWeatherMetrics []))) \<and>
   (range_permutes e \<and> scrape e s = Returned (Status200 fams) \<longrightarrow>
      map familyName fams =
        [''wunderground_dewpt'', ''wunderground_humidity'', ''wunderground_precipRate'',
         ''wunderground_precipTotal'', ''wunderground_pressure'', ''wunderground_solarRadiation'',
         ''wunderground_temp'', ''wunderground_uv'', ''wunderground_windDir'',
         ''wunderground_windGust'', ''wunderground_windSpeed''] \<and>
      list_all (\<lambda>f. length (familyMetric f) = 1) fams)"
proof (intro conjI impI)
  show "length (fst (newWeatherMetrics [])) = 19" by (simp add: new_map table_length)
  show "distinct (map fst (fst (newWeatherMetrics [])))"
    by (simp add: new_map table_length table_keys_distinct)
next
  assume a: "range_permutes e \<and> scrape e s = Returned (Status200 fams)"
  then obtain d where f: "fetchWeatherData e s = Returned (d, None)"
    and r: "render e s d = Returned fams"
    by (auto simp: scrape_def split: if_splits outcome.splits prod.splits option.splits)
  from f obtain obs where d: "d = weatherData_of s obs" using fetch_success_shape by blast
  have "fams = rendered s obs"
  proof (cases "list_all (valid_label e) [s, neighborhood obs, softwareType obs, country obs]")
    case True
    with render_rendered [of e s obs] a r d show ?thesis by simp
  next
    case False
    with render_invalid [of e s obs] a r d show ?thesis by simp
  qed
  then show "map familyName fams =
        [''wunderground_dewpt'', ''wunderground_humidity'', ''wunderground_precipRate'',
         ''wunderground_precipTotal'', ''wunderground_pressure'', ''wunderground_solarRadiation'',
         ''wunderground_temp'', ''wunderground_uv'', ''wunderground_windDir'',
         ''wunderground_windGust'', ''wunderground_windSpeed'']"
    and "list_all (\<lambda>f. length (familyMetric f) = 1) fams"
    by (simp_all add: rendered_def)
qed

theorem metric_table_population_witness:
  "scrape (example_env (Response 200 ''one entry'') doc_one rev rev) ''KTEST1'' =
     Returned (Status200 (rendered ''KTEST1'' obs_A)) \<and>
   map familyName (rendered ''KTEST1'' obs_A) =
     [''wunderground_dewpt'', ''wunderground_humidity'', ''wunderground_precipRate'',
      ''wunderground_precipTotal'', ''wunderground_pressure'', ''wunderground_solarRadiation'',
      ''wunderground_temp'', ''wunderground_uv'', ''wunderground_windDir'',
      ''wunderground_windGust'', ''wunderground_windSpeed''] \<and>
   list_all (\<lambda>f. length (familyMetric f) = 1) (rendered ''KTEST1'' obs_A)"
  using metric_table_population
    [of "example_env (Response 200 ''one entry'') doc_one rev rev" "''KTEST1''"
        "rendered ''KTEST1'' obs_A"]
    example_scrape example_range_permutes(1)
  by simp

text \<open>
  C8.  The keys of the sensor mapping of every \<^verbatim>\<open>WeatherData\<close> that
  \<^verbatim>\<open>fetchWeatherData\<close> returns without an error are keys of the metric table; and the
  population loop skips an entry whose key is not in the table: the loop runs as if
  the entry were not there, with no error and no panic of its own.
\<close>

theorem sensor_keys_defined:
  "(fetchWeatherData e s = Returned (d, None) \<longrightarrow>
      set (map fst (Sensors d)) \<subseteq> set (map fst (fst (newWeatherMetrics [])))) \<and>
   populate e wm s d h xs = populate e wm s d h (filter (\<lambda>kv. map_of wm (fst kv) \<noteq> None) xs) \<and>
   (map_of wm k = None \<longrightarrow> populate e wm s d h ((k, v) # xs) = populate e wm s d h xs)"
proof (intro conjI impI)
  assume "fetchWeatherData e s = Returned (d, None)"
  then obtain obs where "d = weatherData_of s obs" using fetch_success_shape by blast
  then show "set (map fst (Sensors d)) \<subseteq> set (map fst (fst (newWeatherMetrics [])))"
    by (simp add: sensors_keys new_map table_keys table_length)
next
  show "populate e wm s d h xs = populate e wm s d h (filter (\<lambda>kv. map_of wm (fst kv) \<noteq> None) xs)"
    by (rule populate_skips)
next
  assume "map_of wm k = None"
  then show "populate e wm s d h ((k, v) # xs) = populate e wm s d h xs" by simp
qed

theorem sensor_keys_defined_witness:
  "fetchWeatherData (example_env (Response 200 ''one entry'') doc_one rev rev) ''KTEST1'' =
     Returned (weatherData_of ''KTEST1'' obs_A, None) \<and>
   set (map fst (Sensors (weatherData_of ''KTEST1'' obs_A))) \<subseteq>
     set (map fst (fst (newWeatherMetrics []))) \<and>
   map_of (fst (newWeatherMetrics [])) ''dust'' = None \<and>
   populate (example_env (Response 200 ''one entry'') doc_one rev rev) (fst (newWeatherMetrics []))
       ''KTEST1'' (weatherData_of ''KTEST1'' obs_A) (snd (newWeatherMetrics [])) [(''dust'', 1)] =
     Returned (snd (newWeatherMetrics []))"
proof -
  let ?e = "example_env (Response 200 ''one entry'') doc_one rev rev"
  have u: "Unmarshal (json_scan ?e) ''one entry'' zero_WeatherObservation =
      Inr \<lparr>Observations = [obs_A]\<rparr>"
    unfolding example_json_scan by (rule Unmarshal_doc_one)
  have f: "fetchWeatherData ?e ''KTEST1'' = Returned (weatherData_of ''KTEST1'' obs_A, None)"
    using example_http_get [of "Response 200 ''one entry''" doc_one rev rev] u
    by (simp add: fetchWeatherData_def)
  have n: "map_of (fst (newWeatherMetrics [])) ''dust'' = None"
    by (simp add: new_map table_keys upt_rec)
  from sensor_keys_defined
    [of ?e "''KTEST1''" "weatherData_of ''KTEST1'' obs_A" "fst (newWeatherMetrics [])"
        "snd (newWeatherMetrics [])" "[]" "''dust''" 1]
    f n
  show ?thesis by simp
qed

text \<open>
  C9.  Two scrapes of the same station to which the upstream gives the same answer
  produce the same response, whatever the orders in which the two \<^verbatim>\<open>range\<close> loops of
  the handler visit their maps.
\<close>

theorem scrape_deterministic:
  assumes "range_permutes e1" and "range_permutes e2"
    and "json_scan e2 = json_scan e1" and "valid_label e2 = valid_label e1"
    and "http_get e2 (weatherAPIEndpoint s (apiKey e2)) = http_get e1 (weatherAPIEndpoint s (apiKey e1))"
  shows "scrape e2 s = scrape e1 s"
proof -
  have f: "fetchWeatherData e2 s = fetchWeatherData e1 s"
    unfolding fetchWeatherData_def assms(3) assms(5) by (rule refl)
  show ?thesis
  proof (cases "fetchWeatherData e1 s")
    case (Panic m)
    with f show ?thesis by (simp add: scrape_def)
  next
    case (Returned r)
    obtain d err where r: "r = (d, err)" by (cases r)
    show ?thesis
    proof (cases err)
      case (Some x)
      with f Returned r show ?thesis by (simp add: scrape_def)
    next
      case None
      with Returned r obtain obs where "d = weatherData_of s obs"
        using fetch_success_shape by blast
      with f Returned r None render_deterministic [OF assms(1,2,4), of s obs]
      show ?thesis by (simp add: scrape_def)
    qed
  qed
qed

theorem scrape_deterministic_witness:
  "scrape (example_env (Response 200 ''one entry'') doc_one rev rev) ''KTEST1'' =
     scrape (example_env (Response 200 ''one entry'') doc_one id id) ''KTEST1'' \<and>
   scrape (example_env (Response 200 ''one entry'') doc_one rev rev) ''KTEST1'' =
     Returned (Status200 (rendered ''KTEST1'' obs_A))"
proof -
  have "scrape (example_env (Response 200 ''one entry'') doc_one rev rev) ''KTEST1'' =
     scrape (example_env (Response 200 ''one entry'') doc_one id id) ''KTEST1''"
    by (rule scrape_deterministic)
       (simp_all add: example_range_permutes example_json_scan example_valid_label example_http_get)
  with example_scrape show ?thesis by simp
qed

end
